theory Spec2Isabelle
  imports Main
begin

section \<open>The container runner of palcode-runner (src/container-manager/run.js)\<close>

text \<open>
  The module registers three command handlers on every socket.io connection
  (\<open>start\<close>, \<open>stdin\<close>, \<open>stop\<close>) and drives a Docker daemon through dockerode.
  The handlers are asynchronous: they suspend at every \<open>await\<close> and at every
  callback. They are embedded as processes in continuation-passing style: a
  process performs local steps, issues a call to the outside and resumes with the
  outcome of that call. The outside (Docker, the code store, socket.io rooms) is
  a world record the processes are interpreted against.
\<close>

subsection \<open>Command payloads and truthiness\<close>

text \<open>
  The protocol's fields are strings. A field of the payload object is absent
  (\<open>undefined\<close>, here \<open>None\<close>) or a string; \<open>!data.f\<close> is true for an absent field
  and for the empty string.
\<close>

record payload =
  projectId :: "string option"
  language :: "string option"
  schoolId :: "string option"
  stdin :: "string option"

definition truthy :: "string option \<Rightarrow> bool" where
  "truthy v = (case v of None \<Rightarrow> False | Some s \<Rightarrow> s \<noteq> [])"

subsection \<open>Numbers read from the process environment\<close>

text \<open>
  \<open>parseInt(process.env.X || d)\<close>: the operand of \<open>||\<close> is the variable's string
  when it is set and not empty, the number \<open>d\<close> otherwise; \<open>parseInt\<close> converts
  its argument to a string and reads the longest prefix that is an integer literal
  (leading white space, a sign, \<open>0x\<close> for radix 16), giving \<open>NaN\<close> when there
  is none. The result is kept as an exact integer: a JavaScript number holds
  every integer up to \<open>2 ^ 53\<close> exactly.
\<close>

datatype jsnum = NaN | Num int

datatype jsarg = Str string | Number nat

definition or_num :: "string option \<Rightarrow> nat \<Rightarrow> jsarg" where
  "or_num v d = (case v of None \<Rightarrow> Number d | Some s \<Rightarrow> if s = [] then Number d else Str s)"

definition or_str :: "string option \<Rightarrow> string \<Rightarrow> string" where
  "or_str v d = (case v of None \<Rightarrow> d | Some s \<Rightarrow> if s = [] then d else s)"

text \<open>\<open>String(n)\<close> for a natural number: its decimal digits, most significant first.\<close>

definition digit_char :: "nat \<Rightarrow> char" where
  "digit_char d = char_of (of_char (CHR ''0'') + d)"

fun toString_nat :: "nat \<Rightarrow> string" where
  "toString_nat n =
     (if 10 \<le> n then toString_nat (n div 10) @ [digit_char (n mod 10)] else [digit_char n])"

declare toString_nat.simps [simp del]

definition toString :: "jsnum \<Rightarrow> string" where
  "toString x = (case x of NaN \<Rightarrow> ''NaN''
     | Num i \<Rightarrow> if i < 0 then CHR ''-'' # toString_nat (nat (- i)) else toString_nat (nat i))"

definition is_space :: "char \<Rightarrow> bool" where
  "is_space c = (of_char c \<in> {9, 10, 11, 12, 13, 32 :: nat})"

definition digit_val :: "char \<Rightarrow> nat option" where
  "digit_val c =
     (let n = of_char c :: nat in
      if 48 \<le> n \<and> n \<le> 57 then Some (n - 48)
      else if 97 \<le> n \<and> n \<le> 102 then Some (n - 87)
      else if 65 \<le> n \<and> n \<le> 70 then Some (n - 55)
      else None)"

fun digits_prefix :: "nat \<Rightarrow> string \<Rightarrow> nat list" where
  "digits_prefix R [] = []"
| "digits_prefix R (c # cs) =
     (case digit_val c of
        None \<Rightarrow> []
      | Some d \<Rightarrow> if d < R then d # digits_prefix R cs else [])"

definition from_digits :: "nat \<Rightarrow> nat list \<Rightarrow> nat" where
  "from_digits R ds = foldl (\<lambda>a d. a * R + d) 0 ds"

definition parse_string :: "string \<Rightarrow> jsnum" where
  "parse_string s =
     (let t = dropWhile is_space s;
          neg = (take 1 t = ''-'');
          u = (if take 1 t = ''-'' \<or> take 1 t = ''+'' then drop 1 t else t);
          hex = (take 2 u = ''0x'' \<or> take 2 u = ''0X'');
          R = (if hex then 16 else 10);
          ds = digits_prefix R (if hex then drop 2 u else u)
      in if ds = [] then NaN
         else Num (if neg then - int (from_digits R ds) else int (from_digits R ds)))"

definition parseInt :: "jsarg \<Rightarrow> jsnum" where
  "parseInt a = (case a of Str s \<Rightarrow> parse_string s | Number n \<Rightarrow> parse_string (toString_nat n))"

subsection \<open>Events, container configuration, calls to the outside\<close>

type_synonym socket = nat

record event =
  status :: nat
  message :: "string option"
  running :: "bool option"
  stdout :: "string option"
  stdoutID :: "string option"

definition ev :: "nat \<Rightarrow> event" where
  "ev st = \<lparr>status = st, message = None, running = None, stdout = None, stdoutID = None\<rparr>"

text \<open>\<open>socket.emit\<close> replies to one connection; \<open>io.to(room).emit\<close> reaches a room.\<close>

datatype target = ToSocket socket | ToRoom string

record container_config =
  Image' :: string
  name :: string
  WorkingDir :: string
  Binds :: "string list"
  Entrypoint :: "string list"
  OpenStdin :: bool
  Tty :: bool
  PidsLimit :: jsnum
  Memory :: jsnum
  DiskQuota :: jsnum
  NanoCPUs :: jsnum

text \<open>
  What run.js imports and does not define: the helpers, the resource allocator,
  \<open>path.resolve\<close>, \<open>sanitize-filename\<close> and the process environment. They
  are parameters of the model.
\<close>

record runner_env =
  processEnv :: "string \<Rightarrow> string option"
  isValidLanguage :: "string option \<Rightarrow> bool"
  getTag :: "string option \<Rightarrow> string"
  getStorageRoot :: string
  path_resolve :: "string \<Rightarrow> string \<Rightarrow> string"
  sanitize :: "string \<Rightarrow> string"
  getMaxCPUs :: jsnum

datatype call =
    CloneCode string string
  | SaveChanges string string
  | GetContainer string
  | Kill string string
  | Remove string
  | CreateContainer container_config
  | Start string
  | Attach string
  | WriteStdin string string
  | Wait string

datatype outcome = Resolved | Rejected

datatype listener = OnData | OnEnd string

datatype step =
    Emit target event
  | LeaveAll socket
  | Join socket string
  | ConsoleLog
  | Fire call
  | Listen string listener

text \<open>
  A process: \<open>Do\<close> performs a step that does not suspend; \<open>Try\<close> is a synchronous
  call that may throw (\<open>docker.getContainer\<close>); \<open>Call\<close> issues an asynchronous
  call and resumes, in the \<open>await\<close> or in the callback, only when the outside
  has answered; \<open>Throw\<close> is an exception nobody catches.
\<close>

datatype proc =
    Done
  | Throw
  | Do step proc
  | Try call "outcome \<Rightarrow> proc"
  | Call call "outcome \<Rightarrow> proc"

subsection \<open>run.js\<close>

definition container_options :: "runner_env \<Rightarrow> string \<Rightarrow> string option \<Rightarrow> container_config" where
  "container_options env pid lang =
     \<lparr>Image' = getTag env lang,
      name = pid,
      WorkingDir = ''/opt/runner'',
      Binds = [path_resolve env (getStorageRoot env) (sanitize env pid) @ '':/usr/src/app:rw''],
      Entrypoint = [''./run.sh'',
                    toString (parseInt (or_num (processEnv env ''PAL_TIMEOUT'') 15)) @ ''m''],
      OpenStdin = True,
      Tty = True,
      PidsLimit = parseInt (or_num (processEnv env ''PAL_PID_LIMIT'') 25),
      Memory = parseInt (or_num (processEnv env ''PAL_MEMORY_QUOTA'') (100 * 1048576)),
      DiskQuota = parseInt (or_num (processEnv env ''PAL_DISK_QUOTA'') (50 * 1048576)),
      NanoCPUs = getMaxCPUs env\<rparr>"

text \<open>
  \<open>containerStop\<close>: two \<open>try\<close> blocks with empty handlers. When the lookup
  throws, \<open>container\<close> stays undefined, the kill is skipped and
  \<open>container.remove\<close> throws in the second block, where it is caught. The
  continuation \<open>k\<close> is what the caller does after \<open>await containerStop(..)\<close>.
\<close>

definition containerStop :: "runner_env \<Rightarrow> string \<Rightarrow> proc \<Rightarrow> proc" where
  "containerStop env pid k =
     Try (GetContainer pid) (\<lambda>r. case r of
         Rejected \<Rightarrow> k
       | Resolved \<Rightarrow>
           Call (Kill pid (or_str (processEnv env ''PAL_STOP_SIGNAL'') ''SIGKILL'')) (\<lambda>_.
           Call (Remove pid) (\<lambda>_. k)))"

text \<open>The two listeners \<open>execCode\<close> puts on the attached stream.\<close>

definition stream_on_data :: "string \<Rightarrow> string \<Rightarrow> string \<Rightarrow> proc" where
  "stream_on_data pid chunk uuid =
     Do (Emit (ToRoom pid)
           ((ev 200)\<lparr>stdout := Some chunk, stdoutID := Some uuid, running := Some True\<rparr>)) Done"

definition stream_on_end :: "runner_env \<Rightarrow> string \<Rightarrow> string \<Rightarrow> proc" where
  "stream_on_end env pid sid =
     Do (Emit (ToRoom pid) ((ev 200)\<lparr>running := Some False\<rparr>))
       (containerStop env pid
         (Call (SaveChanges pid sid) (\<lambda>r. case r of Resolved \<Rightarrow> Done | Rejected \<Rightarrow> Throw)))"

definition execCode :: "runner_env \<Rightarrow> string \<Rightarrow> string option \<Rightarrow> string \<Rightarrow> proc" where
  "execCode env pid lang sid =
     Do (Emit (ToRoom pid) ((ev 200)\<lparr>message := Some ''Starting...''\<rparr>))
       (Call (CreateContainer (container_options env pid lang)) (\<lambda>r. case r of
           Rejected \<Rightarrow>
             Do ConsoleLog
               (Do (Emit (ToRoom pid)
                     ((ev 500)\<lparr>message := Some ''Run failed. Try again.'',
                                running := Some False\<rparr>)) Done)
         | Resolved \<Rightarrow>
             Do (Emit (ToRoom pid)
                   ((ev 200)\<lparr>message := Some ''Container created! Mounting...'',
                              running := Some True\<rparr>))
               (Do (Fire (Start pid))
                 (Call (Attach pid) (\<lambda>r. case r of
                     Rejected \<Rightarrow> Throw
                   | Resolved \<Rightarrow> Do (Listen pid OnData) (Do (Listen pid (OnEnd sid)) Done))))))"

definition containerStdin :: "string \<Rightarrow> string \<Rightarrow> proc" where
  "containerStdin pid input =
     Try (GetContainer pid) (\<lambda>r. case r of
         Rejected \<Rightarrow> Throw
       | Resolved \<Rightarrow>
           Call (Attach pid) (\<lambda>r. case r of
               Resolved \<Rightarrow> Do (Fire (WriteStdin pid input)) (Do (Fire (Wait pid)) Done)
             | Rejected \<Rightarrow> Do (Fire (Wait pid)) Done))"

text \<open>
  The handlers. \<open>data\<close> is \<open>None\<close> when the client sent no payload object: reading
  a property of \<open>undefined\<close> throws.
\<close>

definition on_start :: "runner_env \<Rightarrow> socket \<Rightarrow> payload option \<Rightarrow> proc" where
  "on_start env sock data =
     (case data of
        None \<Rightarrow> Throw
      | Some d \<Rightarrow>
          if \<not> truthy (projectId d) \<or> \<not> isValidLanguage env (language d) \<or> \<not> truthy (schoolId d)
          then Do (Emit (ToSocket sock) (ev 400)) Done
          else
            Do (Emit (ToSocket sock)
                  ((ev 200)\<lparr>message := Some ''Request acknowledged. Downloading code...''\<rparr>))
              (Call (CloneCode (the (projectId d)) (the (schoolId d))) (\<lambda>r. case r of
                  Rejected \<Rightarrow> Do (Emit (ToSocket sock) (ev 404)) Done
                | Resolved \<Rightarrow>
                    containerStop env (the (projectId d))
                      (Do (LeaveAll sock)
                        (Do (Join sock (the (projectId d)))
                          (execCode env (the (projectId d)) (language d) (the (schoolId d))))))))"

definition on_stdin :: "runner_env \<Rightarrow> socket \<Rightarrow> payload option \<Rightarrow> proc" where
  "on_stdin env sock data =
     (case data of
        None \<Rightarrow> Throw
      | Some d \<Rightarrow>
          if \<not> truthy (projectId d) \<or> \<not> truthy (stdin d)
          then Do (Emit (ToSocket sock) (ev 400)) Done
          else containerStdin (the (projectId d)) (the (stdin d)))"

definition on_stop :: "runner_env \<Rightarrow> socket \<Rightarrow> payload option \<Rightarrow> proc" where
  "on_stop env sock data =
     (case data of
        None \<Rightarrow> Throw
      | Some d \<Rightarrow>
          if \<not> truthy (projectId d)
          then Do (Emit (ToSocket sock) (ev 400)) Done
          else containerStop env (the (projectId d))
                 (Do (Emit (ToSocket sock) ((ev 200)\<lparr>running := Some False\<rparr>)) Done))"

subsection \<open>The outside: Docker, rooms, and what an observer sees\<close>

text \<open>
  The Docker daemon keeps the containers. Container names are unique: creating
  a container under a name in use is refused. Killing needs a running container
  of that name, removing (forced) and attaching need a container of that name.
  Every call can also fail for a reason of its own (daemon unreachable, store
  offline): the flag \<open>fault\<close>. The code store and the lookup
  \<open>docker.getContainer\<close> change nothing here.
\<close>

record sandbox =
  config :: container_config
  up :: bool

definition named :: "string \<Rightarrow> sandbox \<Rightarrow> bool" where
  "named p c = (name (config c) = p)"

fun docker :: "bool \<Rightarrow> call \<Rightarrow> sandbox list \<Rightarrow> outcome \<times> sandbox list" where
  "docker fault (Kill p sig) cs =
     (if \<not> fault \<and> (\<exists>c \<in> set cs. named p c \<and> up c)
      then (Resolved, map (\<lambda>c. if named p c then c\<lparr>up := False\<rparr> else c) cs)
      else (Rejected, cs))"
| "docker fault (Remove p) cs =
     (if \<not> fault \<and> (\<exists>c \<in> set cs. named p c)
      then (Resolved, filter (\<lambda>c. \<not> named p c) cs)
      else (Rejected, cs))"
| "docker fault (CreateContainer cfg) cs =
     (if \<not> fault \<and> \<not> (\<exists>c \<in> set cs. named (name cfg) c)
      then (Resolved, cs @ [\<lparr>config = cfg, up = False\<rparr>])
      else (Rejected, cs))"
| "docker fault (Start p) cs =
     (if \<not> fault \<and> (\<exists>c \<in> set cs. named p c)
      then (Resolved, map (\<lambda>c. if named p c then c\<lparr>up := True\<rparr> else c) cs)
      else (Rejected, cs))"
| "docker fault (Attach p) cs =
     (if \<not> fault \<and> (\<exists>c \<in> set cs. named p c) then (Resolved, cs) else (Rejected, cs))"
| "docker fault (WriteStdin p input) cs =
     (if \<not> fault \<and> (\<exists>c \<in> set cs. named p c) then (Resolved, cs) else (Rejected, cs))"
| "docker fault (Wait p) cs =
     (if \<not> fault \<and> (\<exists>c \<in> set cs. named p c) then (Resolved, cs) else (Rejected, cs))"
| "docker fault (GetContainer p) cs = (if fault then Rejected else Resolved, cs)"
| "docker fault (CloneCode p s) cs = (if fault then Rejected else Resolved, cs)"
| "docker fault (SaveChanges p s) cs = (if fault then Rejected else Resolved, cs)"

text \<open>
  The world: the daemon's containers, the room memberships of socket.io (a pair
  \<open>(s, r)\<close> when socket \<open>s\<close> is in room \<open>r\<close>) and the number of calls made so
  far, which indexes the faults \<open>\<phi>\<close>.
\<close>

record world =
  containers :: "sandbox list"
  members :: "(socket \<times> string) set"
  clock :: nat

datatype entry =
    Emitted target event "socket set"
  | Performed step
  | Called call outcome
  | Uncaught

definition recipients :: "world \<Rightarrow> target \<Rightarrow> socket set" where
  "recipients w t =
     (case t of ToSocket s \<Rightarrow> {s} | ToRoom r \<Rightarrow> fst ` {m \<in> members w. snd m = r})"

definition answer :: "(nat \<Rightarrow> bool) \<Rightarrow> call \<Rightarrow> world \<Rightarrow> outcome \<times> world" where
  "answer \<phi> c w =
     (fst (docker (\<phi> (clock w)) c (containers w)),
      w\<lparr>containers := snd (docker (\<phi> (clock w)) c (containers w)), clock := Suc (clock w)\<rparr>)"

fun perform :: "(nat \<Rightarrow> bool) \<Rightarrow> step \<Rightarrow> world \<Rightarrow> world" where
  "perform \<phi> (Emit t e) w = w"
| "perform \<phi> (LeaveAll s) w = w\<lparr>members := {m \<in> members w. fst m \<noteq> s}\<rparr>"
| "perform \<phi> (Join s r) w = w\<lparr>members := insert (s, r) (members w)\<rparr>"
| "perform \<phi> ConsoleLog w = w"
| "perform \<phi> (Fire c) w = snd (answer \<phi> c w)"
| "perform \<phi> (Listen p l) w = w"

fun entry_of :: "step \<Rightarrow> world \<Rightarrow> entry" where
  "entry_of (Emit t e) w = Emitted t e (recipients w t)"
| "entry_of s w = Performed s"

text \<open>
  Running a process: every world it passes through (\<open>exec\<close>), the world it
  ends in (\<open>final\<close>) and what it did, in order (\<open>trace\<close>). An entry
  \<open>Called c r\<close> is the moment call \<open>c\<close> has been answered with \<open>r\<close>.
\<close>

primrec exec :: "(nat \<Rightarrow> bool) \<Rightarrow> proc \<Rightarrow> world \<Rightarrow> world list" where
  "exec \<phi> Done w = [w]"
| "exec \<phi> Throw w = [w]"
| "exec \<phi> (Do s p) w = w # exec \<phi> p (perform \<phi> s w)"
| "exec \<phi> (Try c k) w = w # exec \<phi> (k (fst (answer \<phi> c w))) (snd (answer \<phi> c w))"
| "exec \<phi> (Call c k) w = w # exec \<phi> (k (fst (answer \<phi> c w))) (snd (answer \<phi> c w))"

primrec final :: "(nat \<Rightarrow> bool) \<Rightarrow> proc \<Rightarrow> world \<Rightarrow> world" where
  "final \<phi> Done w = w"
| "final \<phi> Throw w = w"
| "final \<phi> (Do s p) w = final \<phi> p (perform \<phi> s w)"
| "final \<phi> (Try c k) w = final \<phi> (k (fst (answer \<phi> c w))) (snd (answer \<phi> c w))"
| "final \<phi> (Call c k) w = final \<phi> (k (fst (answer \<phi> c w))) (snd (answer \<phi> c w))"

primrec trace :: "(nat \<Rightarrow> bool) \<Rightarrow> proc \<Rightarrow> world \<Rightarrow> entry list" where
  "trace \<phi> Done w = []"
| "trace \<phi> Throw w = [Uncaught]"
| "trace \<phi> (Do s p) w = entry_of s w # trace \<phi> p (perform \<phi> s w)"
| "trace \<phi> (Try c k) w =
     Called c (fst (answer \<phi> c w)) # trace \<phi> (k (fst (answer \<phi> c w))) (snd (answer \<phi> c w))"
| "trace \<phi> (Call c k) w =
     Called c (fst (answer \<phi> c w)) # trace \<phi> (k (fst (answer \<phi> c w))) (snd (answer \<phi> c w))"

text \<open>
  Handlers run one after the other, each to its end, from the world the previous
  one left: commands handled in sequence.
\<close>

fun trace_seq :: "(nat \<Rightarrow> bool) \<Rightarrow> proc list \<Rightarrow> world \<Rightarrow> entry list" where
  "trace_seq \<phi> [] w = []"
| "trace_seq \<phi> (p # ps) w = trace \<phi> p w @ trace_seq \<phi> ps (final \<phi> p w)"

fun final_seq :: "(nat \<Rightarrow> bool) \<Rightarrow> proc list \<Rightarrow> world \<Rightarrow> world" where
  "final_seq \<phi> [] w = w"
| "final_seq \<phi> (p # ps) w = final_seq \<phi> ps (final \<phi> p w)"

text \<open>What arrives at the module: a command on a socket, or an event of an attached stream.\<close>

datatype incoming =
    StartCmd socket "payload option"
  | StdinCmd socket "payload option"
  | StopCmd socket "payload option"
  | StreamData string string string
  | StreamEnd string string

fun handle :: "runner_env \<Rightarrow> incoming \<Rightarrow> proc" where
  "handle env (StartCmd s data) = on_start env s data"
| "handle env (StdinCmd s data) = on_stdin env s data"
| "handle env (StopCmd s data) = on_stop env s data"
| "handle env (StreamData pid chunk uuid) = stream_on_data pid chunk uuid"
| "handle env (StreamEnd pid sid) = stream_on_end env pid sid"

subsection \<open>Vocabulary of the statements\<close>

definition stop_signal :: "runner_env \<Rightarrow> string" where
  "stop_signal env = or_str (processEnv env ''PAL_STOP_SIGNAL'') ''SIGKILL''"

text \<open>
  What one teardown leaves in the trace: the lookup, and after a lookup that
  returned, the answered kill and then the answered removal.
\<close>

definition teardown_entries ::
  "string \<Rightarrow> string \<Rightarrow> outcome \<Rightarrow> outcome \<Rightarrow> outcome \<Rightarrow> entry list" where
  "teardown_entries p sig r0 r1 r2 =
     (case r0 of
        Rejected \<Rightarrow> [Called (GetContainer p) Rejected]
      | Resolved \<Rightarrow>
          [Called (GetContainer p) Resolved, Called (Kill p sig) r1, Called (Remove p) r2])"

definition teardown_answer :: "entry \<Rightarrow> bool" where
  "teardown_answer e =
     (case e of Called (Kill p sig) r \<Rightarrow> True | Called (Remove p) r \<Rightarrow> True | _ \<Rightarrow> False)"

definition stopped_event :: event where
  "stopped_event = (ev 200)\<lparr>running := Some False\<rparr>"

definition ack_event :: event where
  "ack_event = (ev 200)\<lparr>message := Some ''Request acknowledged. Downloading code...''\<rparr>"

definition starting_event :: event where
  "starting_event = (ev 200)\<lparr>message := Some ''Starting...''\<rparr>"

definition failed_event :: event where
  "failed_event = (ev 500)\<lparr>message := Some ''Run failed. Try again.'', running := Some False\<rparr>"

definition created_event :: event where
  "created_event =
     (ev 200)\<lparr>message := Some ''Container created! Mounting...'', running := Some True\<rparr>"

definition data_event :: "string \<Rightarrow> string \<Rightarrow> event" where
  "data_event chunk uuid =
     (ev 200)\<lparr>stdout := Some chunk, stdoutID := Some uuid, running := Some True\<rparr>"

definition valid_start :: "runner_env \<Rightarrow> payload \<Rightarrow> bool" where
  "valid_start env d =
     (truthy (projectId d) \<and> isValidLanguage env (language d) \<and> truthy (schoolId d))"

text \<open>
  What \<open>execCode\<close> leaves in the trace, given the answers \<open>r\<close> to the creation
  and \<open>r'\<close> to the attachment, and what a whole start command leaves for a
  payload that passed validation, given the answers to all its calls.
\<close>

definition provision_entries ::
  "string \<Rightarrow> container_config \<Rightarrow> string \<Rightarrow> socket set \<Rightarrow> outcome \<Rightarrow> outcome \<Rightarrow> entry list" where
  "provision_entries p cfg sid R r r' =
     Emitted (ToRoom p) starting_event R #
     Called (CreateContainer cfg) r #
     (case r of
        Rejected \<Rightarrow> [Performed ConsoleLog, Emitted (ToRoom p) failed_event R]
      | Resolved \<Rightarrow>
          Emitted (ToRoom p) created_event R #
          Performed (Fire (Start p)) #
          Called (Attach p) r' #
          (case r' of
             Rejected \<Rightarrow> [Uncaught]
           | Resolved \<Rightarrow> [Performed (Listen p OnData), Performed (Listen p (OnEnd sid))]))"

definition start_entries ::
  "socket \<Rightarrow> string \<Rightarrow> string \<Rightarrow> string \<Rightarrow> container_config \<Rightarrow> socket set \<Rightarrow>
   outcome \<Rightarrow> outcome \<Rightarrow> outcome \<Rightarrow> outcome \<Rightarrow> outcome \<Rightarrow> outcome \<Rightarrow> entry list" where
  "start_entries s p sid sig cfg R rc r0 r1 r2 r r' =
     Emitted (ToSocket s) ack_event {s} #
     Called (CloneCode p sid) rc #
     (case rc of
        Rejected \<Rightarrow> [Emitted (ToSocket s) (ev 404) {s}]
      | Resolved \<Rightarrow>
          teardown_entries p sig r0 r1 r2 @
          [Performed (LeaveAll s), Performed (Join s p)] @
          provision_entries p cfg sid R r r')"

text \<open>Projections of a trace: the events sent, the calls answered, the listeners put on streams.\<close>

fun events_of :: "entry list \<Rightarrow> (target \<times> event) list" where
  "events_of [] = []"
| "events_of (Emitted t e R # es) = (t, e) # events_of es"
| "events_of (x # es) = events_of es"

fun calls_of :: "entry list \<Rightarrow> call list" where
  "calls_of [] = []"
| "calls_of (Called c r # es) = c # calls_of es"
| "calls_of (x # es) = calls_of es"

fun listens_of :: "entry list \<Rightarrow> (string \<times> listener) list" where
  "listens_of [] = []"
| "listens_of (Performed (Listen p l) # es) = (p, l) # listens_of es"
| "listens_of (x # es) = listens_of es"

definition is_create :: "call \<Rightarrow> bool" where
  "is_create c = (case c of CreateContainer cfg \<Rightarrow> True | _ \<Rightarrow> False)"

definition is_save :: "call \<Rightarrow> bool" where
  "is_save c = (case c of SaveChanges p s \<Rightarrow> True | _ \<Rightarrow> False)"

text \<open>The life of one attached stream: its chunks, each with its fresh id, then its end.\<close>

definition stream_life :: "string \<Rightarrow> string \<Rightarrow> (string \<times> string) list \<Rightarrow> incoming list" where
  "stream_life p sid chunks = map (\<lambda>(c, u). StreamData p c u) chunks @ [StreamEnd p sid]"

definition is_creation :: "entry \<Rightarrow> bool" where
  "is_creation e = (case e of Called c r \<Rightarrow> is_create c | _ \<Rightarrow> False)"

text \<open>Whether a process can, on some branch, put socket \<open>s\<close> into room \<open>a\<close>.\<close>

primrec joins :: "socket \<Rightarrow> string \<Rightarrow> proc \<Rightarrow> bool" where
  "joins s a Done = False"
| "joins s a Throw = False"
| "joins s a (Do st q) = (st = Join s a \<or> joins s a q)"
| "joins s a (Try c k) = (joins s a (k Resolved) \<or> joins s a (k Rejected))"
| "joins s a (Call c k) = (joins s a (k Resolved) \<or> joins s a (k Rejected))"

fun memberships_of :: "entry list \<Rightarrow> step list" where
  "memberships_of [] = []"
| "memberships_of (Performed (LeaveAll s) # es) = LeaveAll s # memberships_of es"
| "memberships_of (Performed (Join s r) # es) = Join s r # memberships_of es"
| "memberships_of (x # es) = memberships_of es"

subsection \<open>Concrete inputs\<close>

definition example_env :: runner_env where
  "example_env =
     \<lparr>processEnv = (\<lambda>_. None),
      isValidLanguage = (\<lambda>l. l = Some ''python''),
      getTag = (\<lambda>l. ''palcode/python''),
      getStorageRoot = ''/srv'',
      path_resolve = (\<lambda>a b. a @ ''/'' @ b),
      sanitize = (\<lambda>s. s),
      getMaxCPUs = Num 500000000\<rparr>"

definition example_start :: payload where
  "example_start =
     \<lparr>projectId = Some ''abc'', language = Some ''python'', schoolId = Some ''s1'',
      stdin = None\<rparr>"

definition empty_world :: world where
  "empty_world = \<lparr>containers = [], members = {}, clock = 0\<rparr>"

text \<open>A world where project \<open>abc\<close> runs and socket 7 listens to project \<open>old\<close>.\<close>

definition busy_world :: world where
  "busy_world =
     \<lparr>containers = [\<lparr>config = container_options example_env ''abc'' (Some ''python''), up = True\<rparr>],
      members = {(7, ''old'')},
      clock = 0\<rparr>"

definition no_faults :: "nat \<Rightarrow> bool" where
  "no_faults n = False"

definition fault_at :: "nat \<Rightarrow> nat \<Rightarrow> bool" where
  "fault_at k n = (n = k)"

definition tuned_env :: runner_env where
  "tuned_env =
     example_env\<lparr>processEnv :=
       (\<lambda>k. if k = ''PAL_PID_LIMIT'' then Some ''40''
            else if k = ''PAL_TIMEOUT'' then Some ''5''
            else None)\<rparr>"

section \<open>Properties\<close>

subsection \<open>Teardown as a unit\<close>

lemma trace_containerStop:
  "trace \<phi> (containerStop env p k) w =
     trace \<phi> (containerStop env p Done) w @ trace \<phi> k (final \<phi> (containerStop env p Done) w)"
  by (cases "fst (answer \<phi> (GetContainer p) w)") (simp_all add: containerStop_def)

lemma final_containerStop:
  "final \<phi> (containerStop env p k) w = final \<phi> k (final \<phi> (containerStop env p Done) w)"
  by (cases "fst (answer \<phi> (GetContainer p) w)") (simp_all add: containerStop_def)

lemma teardown_shape:
  "\<exists>r0 r1 r2. trace \<phi> (containerStop env p Done) w = teardown_entries p (stop_signal env) r0 r1 r2"
proof (cases "fst (answer \<phi> (GetContainer p) w)")
  case Rejected
  then have "trace \<phi> (containerStop env p Done) w =
      teardown_entries p (stop_signal env) Rejected Rejected Rejected"
    by (simp add: containerStop_def teardown_entries_def)
  then show ?thesis by blast
next
  case Resolved
  then have "trace \<phi> (containerStop env p Done) w =
      teardown_entries p (stop_signal env) Resolved
        (fst (answer \<phi> (Kill p (stop_signal env)) (snd (answer \<phi> (GetContainer p) w))))
        (fst (answer \<phi> (Remove p)
           (snd (answer \<phi> (Kill p (stop_signal env)) (snd (answer \<phi> (GetContainer p) w))))))"
    by (simp add: containerStop_def teardown_entries_def stop_signal_def)
  then show ?thesis by blast
qed

lemma members_containerStop [simp]:
  "members (final \<phi> (containerStop env p Done) w) = members w"
  by (cases "fst (answer \<phi> (GetContainer p) w)") (simp_all add: containerStop_def answer_def)

subsection \<open>The stop command\<close>

text \<open>
  C2, as the code has it. The handler awaits \<open>containerStop\<close>, which awaits the
  kill and then the removal. For every stop command with a truthy projectId, in
  every world and under every pattern of faults, the trace of the handler is
  the whole teardown (lookup, answered kill, answered removal) followed by the
  reply \<open>{status: 200, running: false}\<close> to the sender alone: the
  acknowledgement is the last thing the handler does, after the runtime has
  answered, and it is sent whatever the answers were.
\<close>

theorem stop_ack_after_teardown:
  assumes "truthy (projectId d)"
  shows "\<exists>r0 r1 r2. trace \<phi> (on_stop env s (Some d)) w =
           teardown_entries (the (projectId d)) (stop_signal env) r0 r1 r2 @
           [Emitted (ToSocket s) stopped_event {s}]"
proof -
  obtain r0 r1 r2 where
    "trace \<phi> (containerStop env (the (projectId d)) Done) w =
       teardown_entries (the (projectId d)) (stop_signal env) r0 r1 r2"
    using teardown_shape by blast
  then have "trace \<phi> (on_stop env s (Some d)) w =
           teardown_entries (the (projectId d)) (stop_signal env) r0 r1 r2 @
           [Emitted (ToSocket s) stopped_event {s}]"
    using assms
      trace_containerStop [of \<phi> env "the (projectId d)"
        "Do (Emit (ToSocket s) ((ev 200)\<lparr>running := Some False\<rparr>)) Done" w]
    by (simp add: on_stop_def recipients_def stopped_event_def)
  then show ?thesis by blast
qed

theorem stop_ack_after_teardown_witness:
  "truthy (projectId example_start) \<and>
   (\<exists>r0 r1 r2. trace no_faults (on_stop example_env 7 (Some example_start)) busy_world =
           teardown_entries ''abc'' ''SIGKILL'' r0 r1 r2 @
           [Emitted (ToSocket 7) stopped_event {7}])"
proof -
  have h: "truthy (projectId example_start)"
    by (simp add: example_start_def truthy_def)
  show ?thesis
    using h stop_ack_after_teardown [OF h, of no_faults example_env 7 busy_world]
    by (simp add: example_start_def stop_signal_def example_env_def or_str_def)
qed

text \<open>
  C2, as the claim words it, fails: with project \<open>abc\<close> running, the stop
  handler's trace is the lookup, the answered kill, the answered removal and
  only then the acknowledgement; no acknowledgement is emitted before the
  runtime has confirmed the kill.
\<close>

theorem stop_ack_counterexample:
  "trace no_faults (on_stop example_env 7 (Some example_start)) busy_world =
     [Called (GetContainer ''abc'') Resolved,
      Called (Kill ''abc'' ''SIGKILL'') Resolved,
      Called (Remove ''abc'') Resolved,
      Emitted (ToSocket 7) stopped_event {7}] \<and>
   Emitted (ToSocket 7) stopped_event {7} \<notin>
     set (takeWhile (\<lambda>e. \<not> teardown_answer e)
           (trace no_faults (on_stop example_env 7 (Some example_start)) busy_world))"
  by (simp add: on_stop_def example_env_def busy_world_def example_start_def truthy_def
        containerStop_def answer_def or_str_def recipients_def teardown_answer_def named_def
        container_options_def stopped_event_def no_faults_def)

subsection \<open>Validation\<close>

text \<open>
  C10. The checks are \<open>!data.projectId\<close>, \<open>!data.schoolId\<close> and
  \<open>!data.stdin\<close>: an empty string fails them as an absent field does. A stdin
  command whose stdin is the empty string, and a start command whose projectId
  or schoolId is the empty string, do exactly one thing, the reply
  \<open>{status: 400}\<close> to the sender; the world is left as it was, and the handler
  is the same process as for the payload with the field missing.
\<close>

theorem falsy_fields_rejected:
  "trace \<phi> (on_stdin env s (Some (d\<lparr>stdin := Some ''''\<rparr>))) w = [Emitted (ToSocket s) (ev 400) {s}] \<and>
   trace \<phi> (on_start env s (Some (d\<lparr>projectId := Some ''''\<rparr>))) w = [Emitted (ToSocket s) (ev 400) {s}] \<and>
   trace \<phi> (on_start env s (Some (d\<lparr>schoolId := Some ''''\<rparr>))) w = [Emitted (ToSocket s) (ev 400) {s}] \<and>
   final \<phi> (on_stdin env s (Some (d\<lparr>stdin := Some ''''\<rparr>))) w = w \<and>
   final \<phi> (on_start env s (Some (d\<lparr>projectId := Some ''''\<rparr>))) w = w \<and>
   final \<phi> (on_start env s (Some (d\<lparr>schoolId := Some ''''\<rparr>))) w = w \<and>
   on_stdin env s (Some (d\<lparr>stdin := Some ''''\<rparr>)) = on_stdin env s (Some (d\<lparr>stdin := None\<rparr>)) \<and>
   on_start env s (Some (d\<lparr>projectId := Some ''''\<rparr>)) = on_start env s (Some (d\<lparr>projectId := None\<rparr>)) \<and>
   on_start env s (Some (d\<lparr>schoolId := Some ''''\<rparr>)) = on_start env s (Some (d\<lparr>schoolId := None\<rparr>))"
  by (simp add: on_stdin_def on_start_def truthy_def recipients_def)

theorem falsy_fields_rejected_witness:
  "trace no_faults (on_stdin example_env 7 (Some (example_start\<lparr>stdin := Some ''''\<rparr>))) busy_world =
     [Emitted (ToSocket 7) (ev 400) {7}] \<and>
   trace no_faults (on_start example_env 7 (Some (example_start\<lparr>projectId := Some ''''\<rparr>))) busy_world =
     [Emitted (ToSocket 7) (ev 400) {7}] \<and>
   trace no_faults (on_start example_env 7 (Some (example_start\<lparr>schoolId := Some ''''\<rparr>))) busy_world =
     [Emitted (ToSocket 7) (ev 400) {7}] \<and>
   final no_faults (on_start example_env 7 (Some (example_start\<lparr>projectId := Some ''''\<rparr>))) busy_world =
     busy_world"
  using falsy_fields_rejected [of no_faults example_env 7 example_start busy_world]
  by (elim conjE) (intro conjI, assumption+)

subsection \<open>The shape of a start command\<close>

lemma on_start_invalid:
  "\<not> valid_start env d \<Longrightarrow> on_start env s (Some d) = Do (Emit (ToSocket s) (ev 400)) Done"
  by (auto simp: on_start_def valid_start_def)

lemma on_start_valid:
  "valid_start env d \<Longrightarrow> on_start env s (Some d) =
     Do (Emit (ToSocket s) ack_event)
       (Call (CloneCode (the (projectId d)) (the (schoolId d))) (\<lambda>r. case r of
           Rejected \<Rightarrow> Do (Emit (ToSocket s) (ev 404)) Done
         | Resolved \<Rightarrow>
             containerStop env (the (projectId d))
               (Do (LeaveAll s)
                 (Do (Join s (the (projectId d)))
                   (execCode env (the (projectId d)) (language d) (the (schoolId d)))))))"
  by (auto simp: on_start_def valid_start_def ack_event_def)

lemma members_answer [simp]: "members (snd (answer \<phi> c w)) = members w"
  by (simp add: answer_def)

lemma recipients_members: "members w' = members w \<Longrightarrow> recipients w' t = recipients w t"
  by (cases t) (simp_all add: recipients_def)

lemma execCode_shape:
  "\<exists>r'. trace \<phi> (execCode env p lang sid) w =
     provision_entries p (container_options env p lang) sid (recipients w (ToRoom p))
       (fst (answer \<phi> (CreateContainer (container_options env p lang)) w)) r'"
proof -
  let ?cfg = "container_options env p lang"
  let ?w1 = "snd (answer \<phi> (CreateContainer ?cfg) w)"
  let ?w2 = "snd (answer \<phi> (Start p) ?w1)"
  have R: "recipients ?w1 (ToRoom p) = recipients w (ToRoom p)"
    by (rule recipients_members) simp
  have "trace \<phi> (execCode env p lang sid) w =
     provision_entries p ?cfg sid (recipients w (ToRoom p))
       (fst (answer \<phi> (CreateContainer ?cfg) w)) (fst (answer \<phi> (Attach p) ?w2))"
    using R
    by (simp add: execCode_def provision_entries_def starting_event_def failed_event_def
          created_event_def split: outcome.splits)
  then show ?thesis by blast
qed

lemma recipients_after_join:
  "recipients (perform \<phi> (Join s p) (perform \<phi> (LeaveAll s) w)) (ToRoom p) =
     insert s (recipients w (ToRoom p))"
  by (auto simp: recipients_def image_iff)

lemma start_shape:
  assumes "valid_start env d"
  shows "\<exists>rc r0 r1 r2 r r'. trace \<phi> (on_start env s (Some d)) w =
     start_entries s (the (projectId d)) (the (schoolId d)) (stop_signal env)
       (container_options env (the (projectId d)) (language d))
       (insert s (recipients w (ToRoom (the (projectId d))))) rc r0 r1 r2 r r'"
proof (cases "fst (answer \<phi> (CloneCode (the (projectId d)) (the (schoolId d))) w)")
  case Rejected
  then have "trace \<phi> (on_start env s (Some d)) w =
     start_entries s (the (projectId d)) (the (schoolId d)) (stop_signal env)
       (container_options env (the (projectId d)) (language d))
       (insert s (recipients w (ToRoom (the (projectId d)))))
       Rejected Rejected Rejected Rejected Rejected Rejected"
    using assms by (simp add: on_start_valid start_entries_def recipients_def)
  then show ?thesis by blast
next
  case Resolved
  let ?p = "the (projectId d)"
  let ?sid = "the (schoolId d)"
  let ?w1 = "snd (answer \<phi> (CloneCode ?p ?sid) w)"
  let ?w2 = "final \<phi> (containerStop env ?p Done) ?w1"
  let ?w3 = "perform \<phi> (Join s ?p) (perform \<phi> (LeaveAll s) ?w2)"
  obtain r0 r1 r2 where td:
    "trace \<phi> (containerStop env ?p Done) ?w1 = teardown_entries ?p (stop_signal env) r0 r1 r2"
    using teardown_shape by blast
  obtain r r' where ex:
    "trace \<phi> (execCode env ?p (language d) ?sid) ?w3 =
       provision_entries ?p (container_options env ?p (language d)) ?sid
         (recipients ?w3 (ToRoom ?p)) r r'"
    using execCode_shape by blast
  have "recipients ?w2 (ToRoom ?p) = recipients w (ToRoom ?p)"
    by (rule recipients_members) simp
  then have R: "recipients ?w3 (ToRoom ?p) = insert s (recipients w (ToRoom ?p))"
    by (simp only: recipients_after_join)
  have "trace \<phi> (on_start env s (Some d)) w =
     start_entries s ?p ?sid (stop_signal env) (container_options env ?p (language d))
       (insert s (recipients w (ToRoom ?p))) Resolved r0 r1 r2 r r'"
    using assms Resolved td ex R
      trace_containerStop [of \<phi> env ?p
        "Do (LeaveAll s) (Do (Join s ?p) (execCode env ?p (language d) ?sid))" ?w1]
    by (simp add: on_start_valid start_entries_def recipients_def)
  then show ?thesis by blast
qed

lemma name_container_options [simp]: "name (container_options env p lang) = p"
  by (simp add: container_options_def)

lemma members_final_execCode [simp]:
  "members (final \<phi> (execCode env p lang sid) w) = members w"
  by (simp add: execCode_def split: outcome.splits)

lemma final_on_start_resolved:
  assumes "valid_start env d"
    and "fst (answer \<phi> (CloneCode (the (projectId d)) (the (schoolId d))) w) = Resolved"
  shows "final \<phi> (on_start env s (Some d)) w =
     final \<phi> (execCode env (the (projectId d)) (language d) (the (schoolId d)))
       (perform \<phi> (Join s (the (projectId d)))
         (perform \<phi> (LeaveAll s)
           (final \<phi> (containerStop env (the (projectId d)) Done)
             (snd (answer \<phi> (CloneCode (the (projectId d)) (the (schoolId d))) w)))))"
  using assms
    final_containerStop [of \<phi> env "the (projectId d)"
      "Do (LeaveAll s) (Do (Join s (the (projectId d)))
         (execCode env (the (projectId d)) (language d) (the (schoolId d))))"
      "snd (answer \<phi> (CloneCode (the (projectId d)) (the (schoolId d))) w)"]
  by (simp add: on_start_valid)

lemma clone_answer_in_trace:
  assumes "valid_start env d"
  shows "Called (CloneCode (the (projectId d)) (the (schoolId d)))
           (fst (answer \<phi> (CloneCode (the (projectId d)) (the (schoolId d))) w))
         \<in> set (trace \<phi> (on_start env s (Some d)) w)"
  using assms by (simp add: on_start_valid)

lemma members_after_start:
  assumes "valid_start env d"
    and "fst (answer \<phi> (CloneCode (the (projectId d)) (the (schoolId d))) w) = Resolved"
  shows "members (final \<phi> (on_start env s (Some d)) w) =
           insert (s, the (projectId d)) {m \<in> members w. fst m \<noteq> s}"
  using assms by (simp add: final_on_start_resolved)

subsection \<open>Code fetch failure\<close>

text \<open>
  C7. When the fetch of a start command is rejected, the handler does three
  things and no more: the acknowledgement to the sender, the fetch, and the
  reply \<open>{status: 404}\<close> to the sender alone. No call reaches Docker, so no
  sandbox is created or torn down, and the room memberships are unchanged.
\<close>

theorem fetch_failure_changes_nothing:
  assumes "Called (CloneCode p sid) Rejected \<in> set (trace \<phi> (on_start env s (Some d)) w)"
  shows "trace \<phi> (on_start env s (Some d)) w =
           [Emitted (ToSocket s) ack_event {s},
            Called (CloneCode p sid) Rejected,
            Emitted (ToSocket s) (ev 404) {s}] \<and>
         containers (final \<phi> (on_start env s (Some d)) w) = containers w \<and>
         members (final \<phi> (on_start env s (Some d)) w) = members w"
proof (cases "valid_start env d")
  case False
  then show ?thesis using assms by (simp add: on_start_invalid)
next
  case True
  obtain rc r0 r1 r2 r r' where T: "trace \<phi> (on_start env s (Some d)) w =
     start_entries s (the (projectId d)) (the (schoolId d)) (stop_signal env)
       (container_options env (the (projectId d)) (language d))
       (insert s (recipients w (ToRoom (the (projectId d))))) rc r0 r1 r2 r r'"
    using start_shape [OF True] by blast
  have rc: "rc = Rejected \<and> p = the (projectId d) \<and> sid = the (schoolId d)"
    using assms unfolding T
    by (cases rc; cases r0; cases r; cases r')
       (simp_all add: start_entries_def teardown_entries_def provision_entries_def)
  have "Called (CloneCode p sid) rc \<in> set (trace \<phi> (on_start env s (Some d)) w)"
    unfolding T by (simp add: start_entries_def rc)
  have ans: "fst (answer \<phi> (CloneCode (the (projectId d)) (the (schoolId d))) w) = Rejected"
  proof (rule ccontr)
    assume "fst (answer \<phi> (CloneCode (the (projectId d)) (the (schoolId d))) w) \<noteq> Rejected"
    then have "fst (answer \<phi> (CloneCode (the (projectId d)) (the (schoolId d))) w) = Resolved"
      by (cases "fst (answer \<phi> (CloneCode (the (projectId d)) (the (schoolId d))) w)") simp_all
    then have "Called (CloneCode (the (projectId d)) (the (schoolId d))) Resolved
        \<in> set (trace \<phi> (on_start env s (Some d)) w)"
      using clone_answer_in_trace [OF True, of \<phi> w s] by simp
    then show False unfolding T using rc
      by (simp add: start_entries_def)
  qed
  show ?thesis
    using True ans rc
    by (simp add: on_start_valid recipients_def answer_def)
qed

theorem fetch_failure_changes_nothing_witness:
  "Called (CloneCode ''abc'' ''s1'') Rejected
     \<in> set (trace (fault_at 0) (on_start example_env 7 (Some example_start)) busy_world) \<and>
   trace (fault_at 0) (on_start example_env 7 (Some example_start)) busy_world =
     [Emitted (ToSocket 7) ack_event {7},
      Called (CloneCode ''abc'' ''s1'') Rejected,
      Emitted (ToSocket 7) (ev 404) {7}] \<and>
   containers (final (fault_at 0) (on_start example_env 7 (Some example_start)) busy_world) =
     containers busy_world \<and>
   members (final (fault_at 0) (on_start example_env 7 (Some example_start)) busy_world) =
     members busy_world"
proof -
  have h: "Called (CloneCode ''abc'' ''s1'') Rejected
     \<in> set (trace (fault_at 0) (on_start example_env 7 (Some example_start)) busy_world)"
    by (simp add: on_start_def example_start_def truthy_def busy_world_def answer_def
          fault_at_def)
       (simp add: example_env_def)
  show ?thesis
    using h fetch_failure_changes_nothing [OF h]
    by (elim conjE) (intro conjI, assumption+)
qed

subsection \<open>Provisioning failure\<close>

text \<open>
  C3, as the code has it. When the creation call of a start command is
  rejected, the room of the project receives exactly one event with
  \<open>running: false\<close>, and it is \<open>{status: 500, message: 'Run failed. Try
  again.', running: false}\<close>; it reaches the whole subscriber set, the sender
  included (the sender joined the room before). The creation is called once (no
  retry), no stream is attached and no listener is put on a stream.
\<close>

theorem creation_failure_reported:
  assumes "Called (CreateContainer cfg) Rejected \<in> set (trace \<phi> (on_start env s (Some d)) w)"
  shows "[x \<leftarrow> events_of (trace \<phi> (on_start env s (Some d)) w). running (snd x) = Some False] =
           [(ToRoom (the (projectId d)), failed_event)] \<and>
         Emitted (ToRoom (the (projectId d))) failed_event
             (insert s (recipients w (ToRoom (the (projectId d)))))
           \<in> set (trace \<phi> (on_start env s (Some d)) w) \<and>
         [c \<leftarrow> calls_of (trace \<phi> (on_start env s (Some d)) w). is_create c] = [CreateContainer cfg] \<and>
         Attach (the (projectId d)) \<notin> set (calls_of (trace \<phi> (on_start env s (Some d)) w)) \<and>
         listens_of (trace \<phi> (on_start env s (Some d)) w) = []"
proof (cases "valid_start env d")
  case False
  then show ?thesis using assms by (simp add: on_start_invalid)
next
  case True
  obtain rc r0 r1 r2 r r' where T: "trace \<phi> (on_start env s (Some d)) w =
     start_entries s (the (projectId d)) (the (schoolId d)) (stop_signal env)
       (container_options env (the (projectId d)) (language d))
       (insert s (recipients w (ToRoom (the (projectId d))))) rc r0 r1 r2 r r'"
    using start_shape [OF True] by blast
  show ?thesis
    using assms unfolding T
    by (cases rc; cases r0; cases r; cases r')
       (simp_all add: start_entries_def teardown_entries_def provision_entries_def
          is_create_def ack_event_def starting_event_def failed_event_def ev_def)
qed


theorem creation_failure_reported_witness:
  "Called (CreateContainer (container_options example_env ''abc'' (Some ''python''))) Rejected
     \<in> set (trace (fault_at 4) (on_start example_env 7 (Some example_start)) busy_world) \<and>
   [x \<leftarrow> events_of (trace (fault_at 4) (on_start example_env 7 (Some example_start)) busy_world).
      running (snd x) = Some False] = [(ToRoom ''abc'', failed_event)] \<and>
   Emitted (ToRoom ''abc'') failed_event {7}
     \<in> set (trace (fault_at 4) (on_start example_env 7 (Some example_start)) busy_world) \<and>
   listens_of (trace (fault_at 4) (on_start example_env 7 (Some example_start)) busy_world) = []"
proof -
  have h: "Called (CreateContainer (container_options example_env ''abc'' (Some ''python''))) Rejected
     \<in> set (trace (fault_at 4) (on_start example_env 7 (Some example_start)) busy_world)"
    by (simp add: on_start_def example_start_def truthy_def busy_world_def containerStop_def
          execCode_def answer_def fault_at_def named_def)
       (simp add: example_env_def)
  have p: "the (projectId example_start) = ''abc''"
    by (simp add: example_start_def)
  have R: "insert 7 (recipients busy_world (ToRoom ''abc'')) = {7}"
    by (auto simp: recipients_def busy_world_def)
  show ?thesis
    using h creation_failure_reported [OF h, unfolded p R]
    by (elim conjE) (intro conjI, assumption+)
qed

text \<open>
  C3, as the claim words it, fails on the status: with the creation rejected,
  no event of the shape \<open>{status: 200, message, running: false}\<close> is sent at
  all.
\<close>

theorem creation_failure_counterexample:
  "Called (CreateContainer (container_options example_env ''abc'' (Some ''python''))) Rejected
     \<in> set (trace (fault_at 4) (on_start example_env 7 (Some example_start)) busy_world) \<and>
   [x \<leftarrow> events_of (trace (fault_at 4) (on_start example_env 7 (Some example_start)) busy_world).
      status (snd x) = 200 \<and> message (snd x) \<noteq> None \<and> running (snd x) = Some False] = []"
  by (simp add: on_start_def example_start_def truthy_def busy_world_def containerStop_def
        execCode_def answer_def fault_at_def named_def recipients_def ev_def)
     (simp add: example_env_def)

subsection \<open>Teardown and provisioning against the world\<close>

lemma answer_remove_resolved:
  "fst (answer \<phi> (Remove p) w) = Resolved \<Longrightarrow>
     \<not> (\<exists>c \<in> set (containers (snd (answer \<phi> (Remove p) w))). named p c)"
  by (auto simp: answer_def split: if_splits)

lemma answer_create_rejected:
  "fst (answer \<phi> (CreateContainer cfg) w) = Rejected \<Longrightarrow>
     containers (snd (answer \<phi> (CreateContainer cfg) w)) = containers w"
  by (auto simp: answer_def split: if_splits)

lemma final_containerStop_Done:
  "final \<phi> (containerStop env p Done) w =
     (case fst (answer \<phi> (GetContainer p) w) of
        Rejected \<Rightarrow> snd (answer \<phi> (GetContainer p) w)
      | Resolved \<Rightarrow>
          snd (answer \<phi> (Remove p)
            (snd (answer \<phi> (Kill p (stop_signal env)) (snd (answer \<phi> (GetContainer p) w))))))"
  by (simp add: containerStop_def stop_signal_def split: outcome.splits)

lemma trace_containerStop_Done:
  "trace \<phi> (containerStop env p Done) w =
     teardown_entries p (stop_signal env)
       (fst (answer \<phi> (GetContainer p) w))
       (fst (answer \<phi> (Kill p (stop_signal env)) (snd (answer \<phi> (GetContainer p) w))))
       (fst (answer \<phi> (Remove p)
          (snd (answer \<phi> (Kill p (stop_signal env)) (snd (answer \<phi> (GetContainer p) w))))))"
  by (simp add: containerStop_def stop_signal_def teardown_entries_def split: outcome.splits)

lemma remove_resolved_gone:
  assumes "Called (Remove p) Resolved \<in> set (trace \<phi> (containerStop env p Done) w)"
  shows "\<not> (\<exists>c \<in> set (containers (final \<phi> (containerStop env p Done) w)). named p c)"
proof (cases "fst (answer \<phi> (GetContainer p) w)")
  case Rejected
  then show ?thesis
    using assms by (simp add: trace_containerStop_Done teardown_entries_def)
next
  case Resolved
  let ?wk = "snd (answer \<phi> (Kill p (stop_signal env)) (snd (answer \<phi> (GetContainer p) w)))"
  have "fst (answer \<phi> (Remove p) ?wk) = Resolved"
    using assms Resolved by (simp add: trace_containerStop_Done teardown_entries_def)
  then have "\<not> (\<exists>c \<in> set (containers (snd (answer \<phi> (Remove p) ?wk))). named p c)"
    by (rule answer_remove_resolved)
  then show ?thesis
    using Resolved by (simp add: final_containerStop_Done)
qed

lemma create_rejected_keeps:
  assumes "Called (CreateContainer cfg) Rejected \<in> set (trace \<phi> (execCode env p lang sid) w)"
  shows "containers (final \<phi> (execCode env p lang sid) w) = containers w"
proof -
  have "fst (answer \<phi> (CreateContainer (container_options env p lang)) w) = Rejected"
    using assms by (simp add: execCode_def split: outcome.splits)
  then show ?thesis
    using answer_create_rejected [of \<phi> "container_options env p lang" w]
    by (simp add: execCode_def)
qed

lemma trace_on_start_resolved:
  assumes "valid_start env d"
    and "fst (answer \<phi> (CloneCode (the (projectId d)) (the (schoolId d))) w) = Resolved"
  shows "trace \<phi> (on_start env s (Some d)) w =
     [Emitted (ToSocket s) ack_event {s},
      Called (CloneCode (the (projectId d)) (the (schoolId d))) Resolved] @
     trace \<phi> (containerStop env (the (projectId d)) Done)
       (snd (answer \<phi> (CloneCode (the (projectId d)) (the (schoolId d))) w)) @
     [Performed (LeaveAll s), Performed (Join s (the (projectId d)))] @
     trace \<phi> (execCode env (the (projectId d)) (language d) (the (schoolId d)))
       (perform \<phi> (Join s (the (projectId d)))
         (perform \<phi> (LeaveAll s)
           (final \<phi> (containerStop env (the (projectId d)) Done)
             (snd (answer \<phi> (CloneCode (the (projectId d)) (the (schoolId d))) w)))))"
  using assms
    trace_containerStop [of \<phi> env "the (projectId d)"
      "Do (LeaveAll s) (Do (Join s (the (projectId d)))
         (execCode env (the (projectId d)) (language d) (the (schoolId d))))"
      "snd (answer \<phi> (CloneCode (the (projectId d)) (the (schoolId d))) w)"]
  by (simp add: on_start_valid recipients_def)

lemma no_create_in_teardown:
  "Called (CreateContainer cfg) r \<notin> set (trace \<phi> (containerStop env p Done) w)"
  by (cases "fst (answer \<phi> (GetContainer p) w)") (simp_all add: containerStop_def)

lemma no_remove_in_execCode:
  "Called (Remove q) r \<notin> set (trace \<phi> (execCode env p lang sid) w)"
  by (simp add: execCode_def split: outcome.splits)

subsection \<open>A start that fails at creation\<close>

text \<open>
  C9. A start whose creation call is rejected is not atomic. Its trace is: the
  acknowledgement, the resolved fetch, the whole teardown of the previous
  sandbox, \<open>leaveAll\<close>, \<open>join\<close>, the event \<open>Starting...\<close>, the rejected
  creation and only then the failure event. At that point the sender's
  memberships are exactly the room of the project, and whenever the runtime
  confirmed the removal no container of that name is left: the previous
  session did not survive.
\<close>

theorem failed_creation_not_atomic:
  assumes "Called (CreateContainer cfg) Rejected \<in> set (trace \<phi> (on_start env s (Some d)) w)"
  shows "(\<exists>r0 r1 r2. trace \<phi> (on_start env s (Some d)) w =
            [Emitted (ToSocket s) ack_event {s},
             Called (CloneCode (the (projectId d)) (the (schoolId d))) Resolved] @
            teardown_entries (the (projectId d)) (stop_signal env) r0 r1 r2 @
            [Performed (LeaveAll s),
             Performed (Join s (the (projectId d))),
             Emitted (ToRoom (the (projectId d))) starting_event
               (insert s (recipients w (ToRoom (the (projectId d))))),
             Called (CreateContainer cfg) Rejected,
             Performed ConsoleLog,
             Emitted (ToRoom (the (projectId d))) failed_event
               (insert s (recipients w (ToRoom (the (projectId d)))))]) \<and>
         {r. (s, r) \<in> members (final \<phi> (on_start env s (Some d)) w)} = {the (projectId d)} \<and>
         (Called (Remove (the (projectId d))) Resolved \<in> set (trace \<phi> (on_start env s (Some d)) w) \<longrightarrow>
            \<not> (\<exists>c \<in> set (containers (final \<phi> (on_start env s (Some d)) w)).
                  named (the (projectId d)) c))"
proof (cases "valid_start env d")
  case False
  then show ?thesis using assms by (simp add: on_start_invalid)
next
  case True
  let ?p = "the (projectId d)"
  let ?sid = "the (schoolId d)"
  let ?T = "trace \<phi> (on_start env s (Some d)) w"
  obtain rc r0 r1 r2 r r' where T: "?T =
     start_entries s ?p ?sid (stop_signal env) (container_options env ?p (language d))
       (insert s (recipients w (ToRoom ?p))) rc r0 r1 r2 r r'"
    using start_shape [OF True] by blast
  have rc: "rc = Resolved"
    using assms unfolding T by (cases rc) (simp_all add: start_entries_def)
  have shape: "?T =
            [Emitted (ToSocket s) ack_event {s}, Called (CloneCode ?p ?sid) Resolved] @
            teardown_entries ?p (stop_signal env) r0 r1 r2 @
            [Performed (LeaveAll s), Performed (Join s ?p),
             Emitted (ToRoom ?p) starting_event (insert s (recipients w (ToRoom ?p))),
             Called (CreateContainer cfg) Rejected, Performed ConsoleLog,
             Emitted (ToRoom ?p) failed_event (insert s (recipients w (ToRoom ?p)))]"
    using assms unfolding T
    by (cases rc; cases r0; cases r; cases r')
       (simp_all add: start_entries_def teardown_entries_def provision_entries_def)
  have ans: "fst (answer \<phi> (CloneCode ?p ?sid) w) = Resolved"
  proof (rule ccontr)
    assume "fst (answer \<phi> (CloneCode ?p ?sid) w) \<noteq> Resolved"
    then have "fst (answer \<phi> (CloneCode ?p ?sid) w) = Rejected"
      by (cases "fst (answer \<phi> (CloneCode ?p ?sid) w)") simp_all
    then have "Called (CloneCode ?p ?sid) Rejected \<in> set ?T"
      using clone_answer_in_trace [OF True, of \<phi> w s] by simp
    then show False unfolding T rc
      by (cases r0; cases r; cases r')
         (simp_all add: start_entries_def teardown_entries_def provision_entries_def)
  qed
  let ?w1 = "snd (answer \<phi> (CloneCode ?p ?sid) w)"
  let ?w2 = "final \<phi> (containerStop env ?p Done) ?w1"
  let ?w3 = "perform \<phi> (Join s ?p) (perform \<phi> (LeaveAll s) ?w2)"
  have dec: "?T = [Emitted (ToSocket s) ack_event {s}, Called (CloneCode ?p ?sid) Resolved] @
     trace \<phi> (containerStop env ?p Done) ?w1 @
     [Performed (LeaveAll s), Performed (Join s ?p)] @
     trace \<phi> (execCode env ?p (language d) ?sid) ?w3"
    by (rule trace_on_start_resolved [OF True ans])
  have fin: "final \<phi> (on_start env s (Some d)) w = final \<phi> (execCode env ?p (language d) ?sid) ?w3"
    by (rule final_on_start_resolved [OF True ans])
  have mem: "{r. (s, r) \<in> members (final \<phi> (on_start env s (Some d)) w)} = {?p}"
    using members_after_start [OF True ans, of s] by auto
  have cre: "Called (CreateContainer cfg) Rejected \<in> set (trace \<phi> (execCode env ?p (language d) ?sid) ?w3)"
    using assms no_create_in_teardown [of cfg Rejected \<phi> env ?p ?w1] unfolding dec by simp
  have keep: "containers (final \<phi> (on_start env s (Some d)) w) = containers ?w2"
    using create_rejected_keeps [OF cre] fin by simp
  have gone: "Called (Remove ?p) Resolved \<in> set ?T \<longrightarrow>
            \<not> (\<exists>c \<in> set (containers (final \<phi> (on_start env s (Some d)) w)). named ?p c)"
  proof
    assume "Called (Remove ?p) Resolved \<in> set ?T"
    then have "Called (Remove ?p) Resolved \<in> set (trace \<phi> (containerStop env ?p Done) ?w1)"
      using no_remove_in_execCode [of ?p Resolved \<phi> env ?p "language d" ?sid ?w3]
      unfolding dec by simp
    then show "\<not> (\<exists>c \<in> set (containers (final \<phi> (on_start env s (Some d)) w)). named ?p c)"
      using remove_resolved_gone keep by simp
  qed
  from shape mem gone show ?thesis by blast
qed


theorem failed_creation_not_atomic_witness:
  "Called (CreateContainer (container_options example_env ''abc'' (Some ''python''))) Rejected
     \<in> set (trace (fault_at 4) (on_start example_env 7 (Some example_start)) busy_world) \<and>
   Called (Remove ''abc'') Resolved
     \<in> set (trace (fault_at 4) (on_start example_env 7 (Some example_start)) busy_world) \<and>
   {r. (7, r) \<in> members (final (fault_at 4) (on_start example_env 7 (Some example_start)) busy_world)} =
     {''abc''} \<and>
   \<not> (\<exists>c \<in> set (containers (final (fault_at 4) (on_start example_env 7 (Some example_start)) busy_world)).
         named ''abc'' c)"
proof -
  have h: "Called (CreateContainer (container_options example_env ''abc'' (Some ''python''))) Rejected
     \<in> set (trace (fault_at 4) (on_start example_env 7 (Some example_start)) busy_world)"
    by (simp add: on_start_def example_start_def truthy_def busy_world_def containerStop_def
          execCode_def answer_def fault_at_def named_def)
       (simp add: example_env_def)
  have h2: "Called (Remove ''abc'') Resolved
     \<in> set (trace (fault_at 4) (on_start example_env 7 (Some example_start)) busy_world)"
    by (simp add: on_start_def example_start_def truthy_def busy_world_def containerStop_def
          execCode_def answer_def fault_at_def named_def)
       (simp add: example_env_def)
  have p: "the (projectId example_start) = ''abc''"
    by (simp add: example_start_def)
  note th = failed_creation_not_atomic [OF h, unfolded p]
  from th have m: "{r. (7, r) \<in> members (final (fault_at 4)
      (on_start example_env 7 (Some example_start)) busy_world)} = {''abc''}"
    by (elim conjE)
  from th h2 have g: "\<not> (\<exists>c \<in> set (containers (final (fault_at 4)
      (on_start example_env 7 (Some example_start)) busy_world)). named ''abc'' c)"
    by (elim conjE impE)
  from h h2 m g show ?thesis by (intro conjI)
qed

subsection \<open>The end of a stream\<close>

lemma events_of_append: "events_of (a @ b) = events_of a @ events_of b"
  by (induction a rule: events_of.induct) simp_all

lemma calls_of_append: "calls_of (a @ b) = calls_of a @ calls_of b"
  by (induction a rule: calls_of.induct) simp_all

lemma trace_stream_on_data:
  "trace \<phi> (stream_on_data p c u) w = [Emitted (ToRoom p) (data_event c u) (recipients w (ToRoom p))]"
  by (simp add: stream_on_data_def data_event_def)

lemma final_stream_on_data: "final \<phi> (stream_on_data p c u) w = w"
  by (simp add: stream_on_data_def)

lemma trace_seq_chunks:
  "trace_seq \<phi> (map (handle env) (map (\<lambda>(c, u). StreamData p c u) chunks @ rest)) w =
     map (\<lambda>(c, u). Emitted (ToRoom p) (data_event c u) (recipients w (ToRoom p))) chunks @
     trace_seq \<phi> (map (handle env) rest) w"
  by (induction chunks) (auto simp: trace_stream_on_data final_stream_on_data)

lemma stream_on_end_shape:
  "\<exists>r0 r1 r2 r. trace \<phi> (stream_on_end env p sid) w =
      Emitted (ToRoom p) stopped_event (recipients w (ToRoom p)) #
      teardown_entries p (stop_signal env) r0 r1 r2 @
      Called (SaveChanges p sid) r # (case r of Resolved \<Rightarrow> [] | Rejected \<Rightarrow> [Uncaught])"
proof -
  let ?K = "Call (SaveChanges p sid) (\<lambda>r. case r of Resolved \<Rightarrow> Done | Rejected \<Rightarrow> Throw)"
  let ?w2 = "final \<phi> (containerStop env p Done) w"
  have "trace \<phi> (stream_on_end env p sid) w =
      Emitted (ToRoom p) stopped_event (recipients w (ToRoom p)) #
      teardown_entries p (stop_signal env)
       (fst (answer \<phi> (GetContainer p) w))
       (fst (answer \<phi> (Kill p (stop_signal env)) (snd (answer \<phi> (GetContainer p) w))))
       (fst (answer \<phi> (Remove p)
          (snd (answer \<phi> (Kill p (stop_signal env)) (snd (answer \<phi> (GetContainer p) w)))))) @
      Called (SaveChanges p sid) (fst (answer \<phi> (SaveChanges p sid) ?w2)) #
      (case fst (answer \<phi> (SaveChanges p sid) ?w2) of Resolved \<Rightarrow> [] | Rejected \<Rightarrow> [Uncaught])"
    using trace_containerStop [of \<phi> env p ?K w]
    by (simp add: stream_on_end_def stopped_event_def trace_containerStop_Done
          split: outcome.splits)
  then show ?thesis by blast
qed

text \<open>
  C4. Take one attached stream of project \<open>p\<close>: any number of chunks, then
  its end, in any world (so also after an external stop has already removed the
  container) and under any faults. The chunks are relayed with
  \<open>running: true\<close>; then the terminal event \<open>{status: 200, running:
  false}\<close> goes to the room, then comes one whole teardown, then one call of
  \<open>saveChanges\<close>. Counting over the whole life of the stream: one event with
  \<open>running: false\<close>, one teardown (one lookup), one persistence call.
\<close>

theorem relay_ends_once:
  "(\<exists>r0 r1 r2 r. trace_seq \<phi> (map (handle env) (stream_life p sid chunks)) w =
      map (\<lambda>(c, u). Emitted (ToRoom p) (data_event c u) (recipients w (ToRoom p))) chunks @
      Emitted (ToRoom p) stopped_event (recipients w (ToRoom p)) #
      teardown_entries p (stop_signal env) r0 r1 r2 @
      Called (SaveChanges p sid) r # (case r of Resolved \<Rightarrow> [] | Rejected \<Rightarrow> [Uncaught])) \<and>
   [x \<leftarrow> events_of (trace_seq \<phi> (map (handle env) (stream_life p sid chunks)) w).
      running (snd x) = Some False] = [(ToRoom p, stopped_event)] \<and>
   [c \<leftarrow> calls_of (trace_seq \<phi> (map (handle env) (stream_life p sid chunks)) w).
      c = GetContainer p] = [GetContainer p] \<and>
   [c \<leftarrow> calls_of (trace_seq \<phi> (map (handle env) (stream_life p sid chunks)) w).
      is_save c] = [SaveChanges p sid]"
proof -
  let ?T = "trace_seq \<phi> (map (handle env) (stream_life p sid chunks)) w"
  let ?D = "map (\<lambda>(c, u). Emitted (ToRoom p) (data_event c u) (recipients w (ToRoom p))) chunks"
  obtain r0 r1 r2 r where E: "trace \<phi> (stream_on_end env p sid) w =
      Emitted (ToRoom p) stopped_event (recipients w (ToRoom p)) #
      teardown_entries p (stop_signal env) r0 r1 r2 @
      Called (SaveChanges p sid) r # (case r of Resolved \<Rightarrow> [] | Rejected \<Rightarrow> [Uncaught])"
    using stream_on_end_shape by blast
  have T: "?T = ?D @
      Emitted (ToRoom p) stopped_event (recipients w (ToRoom p)) #
      teardown_entries p (stop_signal env) r0 r1 r2 @
      Called (SaveChanges p sid) r # (case r of Resolved \<Rightarrow> [] | Rejected \<Rightarrow> [Uncaught])"
    unfolding stream_life_def trace_seq_chunks using E by simp
  have evD: "[x \<leftarrow> events_of ?D. running (snd x) = Some False] = []"
    by (induction chunks) (auto simp: data_event_def)
  have caD: "calls_of ?D = []"
    by (induction chunks) auto
  have ev: "[x \<leftarrow> events_of ?T. running (snd x) = Some False] = [(ToRoom p, stopped_event)]"
    unfolding T
    by (cases r0; cases r)
       (simp_all add: events_of_append evD teardown_entries_def stopped_event_def)
  have c1: "[c \<leftarrow> calls_of ?T. c = GetContainer p] = [GetContainer p]"
    unfolding T
    by (cases r0; cases r) (simp_all add: calls_of_append caD teardown_entries_def)
  have c2: "[c \<leftarrow> calls_of ?T. is_save c] = [SaveChanges p sid]"
    unfolding T
    by (cases r0; cases r) (simp_all add: calls_of_append caD teardown_entries_def is_save_def)
  from T ev c1 c2 show ?thesis by blast
qed

theorem relay_ends_once_witness:
  "[x \<leftarrow> events_of (trace_seq no_faults
        (map (handle example_env) (stream_life ''abc'' ''s1'' [(''hello'', ''id-1'')]))
        (final no_faults (on_stop example_env 7 (Some example_start)) busy_world)).
      running (snd x) = Some False] = [(ToRoom ''abc'', stopped_event)] \<and>
   [c \<leftarrow> calls_of (trace_seq no_faults
        (map (handle example_env) (stream_life ''abc'' ''s1'' [(''hello'', ''id-1'')]))
        (final no_faults (on_stop example_env 7 (Some example_start)) busy_world)).
      c = GetContainer ''abc''] = [GetContainer ''abc''] \<and>
   [c \<leftarrow> calls_of (trace_seq no_faults
        (map (handle example_env) (stream_life ''abc'' ''s1'' [(''hello'', ''id-1'')]))
        (final no_faults (on_stop example_env 7 (Some example_start)) busy_world)).
      is_save c] = [SaveChanges ''abc'' ''s1'']"
  using relay_ends_once [of no_faults example_env "''abc''" "''s1''" "[(''hello'', ''id-1'')]"
      "final no_faults (on_stop example_env 7 (Some example_start)) busy_world"]
  by (elim conjE) (intro conjI, assumption+)

subsection \<open>Teardown is best effort\<close>

lemma containers_answer_absent:
  "\<not> (\<exists>c \<in> set (containers w). named p c) \<Longrightarrow>
     containers (snd (answer \<phi> (Kill p sig) w)) = containers w \<and>
     containers (snd (answer \<phi> (Remove p) w)) = containers w"
  by (simp add: answer_def)

lemma containers_answer_lookup [simp]:
  "containers (snd (answer \<phi> (GetContainer p) w)) = containers w"
  by (simp add: answer_def)

lemma teardown_absent:
  assumes "\<not> (\<exists>c \<in> set (containers w). named p c)"
  shows "containers (final \<phi> (containerStop env p Done) w) = containers w"
proof -
  let ?wg = "snd (answer \<phi> (GetContainer p) w)"
  let ?wk = "snd (answer \<phi> (Kill p (stop_signal env)) ?wg)"
  have g: "\<not> (\<exists>c \<in> set (containers ?wg). named p c)"
    using assms by simp
  then have k: "containers ?wk = containers w"
    using containers_answer_absent [of ?wg p \<phi> "stop_signal env"] by simp
  then have "\<not> (\<exists>c \<in> set (containers ?wk). named p c)"
    using assms by simp
  then have "containers (snd (answer \<phi> (Remove p) ?wk)) = containers w"
    using containers_answer_absent [of ?wk p \<phi> "stop_signal env"] k by simp
  then show ?thesis
    by (cases "fst (answer \<phi> (GetContainer p) w)") (simp_all add: final_containerStop_Done)
qed

lemma filter_unnamed_map:
  "[c \<leftarrow> map (\<lambda>c. if named p c then c\<lparr>up := b\<rparr> else c) cs. \<not> named p c] =
   [c \<leftarrow> cs. \<not> named p c]"
  by (induction cs) (auto simp: named_def)

lemma filter_unnamed_absent:
  "\<not> (\<exists>c \<in> set cs. named p c) \<Longrightarrow> [c \<leftarrow> cs. \<not> named p c] = cs"
  by (induction cs) auto

lemma named_after_map:
  "(\<exists>c \<in> set (map (\<lambda>c. if named p c then c\<lparr>up := b\<rparr> else c) cs). named p c) =
   (\<exists>c \<in> set cs. named p c)"
  by (induction cs) (auto simp: named_def)

lemma docker_lookup: "docker f (GetContainer p) cs = (if f then Rejected else Resolved, cs)"
  by simp

lemma docker_kill_no_fault:
  "snd (docker False (Kill p sig) cs) =
     (if \<exists>c \<in> set cs. named p c \<and> up c
      then map (\<lambda>c. if named p c then c\<lparr>up := False\<rparr> else c) cs else cs)"
  by (simp, blast)

lemma docker_remove_no_fault:
  "snd (docker False (Remove p) cs) = [c \<leftarrow> cs. \<not> named p c]"
proof (cases "\<exists>c \<in> set cs. named p c")
  case True
  then show ?thesis by simp
next
  case False
  then have "[c \<leftarrow> cs. \<not> named p c] = cs"
    by (rule filter_unnamed_absent)
  then show ?thesis using False by simp
qed

lemma docker_teardown_no_fault:
  "snd (docker False (Remove p) (snd (docker False (Kill p sig) cs))) = [c \<leftarrow> cs. \<not> named p c]"
  unfolding docker_remove_no_fault docker_kill_no_fault
  by (cases "\<exists>c \<in> set cs. named p c \<and> up c") (simp_all only: if_True if_False filter_unnamed_map)

lemma teardown_no_faults:
  assumes "\<forall>n. \<not> \<phi> n"
  shows "containers (final \<phi> (containerStop env p Done) w) = [c \<leftarrow> containers w. \<not> named p c]"
proof -
  have g: "fst (answer \<phi> (GetContainer p) w) = Resolved"
    using assms by (simp add: answer_def)
  have "containers (snd (answer \<phi> (Remove p)
          (snd (answer \<phi> (Kill p (stop_signal env)) (snd (answer \<phi> (GetContainer p) w)))))) =
        snd (docker False (Remove p) (snd (docker False (Kill p (stop_signal env)) (containers w))))"
    using assms by (simp add: answer_def docker_lookup del: docker.simps)
  then show ?thesis
    using g by (simp add: final_containerStop_Done docker_teardown_no_fault del: docker.simps)
qed

text \<open>
  C8. Teardown never throws, in any world and under any faults: its trace is
  the lookup alone (when the lookup threw; the removal on the undefined handle
  throws inside the second \<open>try\<close>) or the lookup, the answered kill and the
  answered removal. Whatever the kill was answered, the removal is attempted.
  Where no container of the name exists, teardown leaves the containers as
  they are; with a runtime that does not fault it leaves exactly the containers
  of other names, so that a second teardown right after the first changes
  nothing. A stop command with a non-empty projectId therefore throws nothing
  and sends exactly one event, \<open>{status: 200, running: false}\<close> to the
  sender, also when no sandbox of that name is live.
\<close>

theorem teardown_best_effort:
  "Uncaught \<notin> set (trace \<phi> (containerStop env p Done) w) \<and>
   (\<exists>r0 r1 r2. trace \<phi> (containerStop env p Done) w =
      teardown_entries p (stop_signal env) r0 r1 r2) \<and>
   (\<forall>r1. Called (Kill p (stop_signal env)) r1 \<in> set (trace \<phi> (containerStop env p Done) w) \<longrightarrow>
      Remove p \<in> set (calls_of (trace \<phi> (containerStop env p Done) w))) \<and>
   (Called (GetContainer p) Resolved \<in> set (trace \<phi> (containerStop env p Done) w) \<longrightarrow>
      calls_of (trace \<phi> (containerStop env p Done) w) =
        [GetContainer p, Kill p (stop_signal env), Remove p]) \<and>
   (\<not> (\<exists>c \<in> set (containers w). named p c) \<longrightarrow>
      containers (final \<phi> (containerStop env p Done) w) = containers w) \<and>
   ((\<forall>n. \<not> \<phi> n) \<longrightarrow>
      containers (final \<phi> (containerStop env p Done) w) = [c \<leftarrow> containers w. \<not> named p c] \<and>
      containers (final \<phi> (containerStop env p (containerStop env p Done)) w) =
        containers (final \<phi> (containerStop env p Done) w)) \<and>
   (projectId d = Some p \<and> p \<noteq> [] \<longrightarrow>
      Uncaught \<notin> set (trace \<phi> (on_stop env s (Some d)) w) \<and>
      events_of (trace \<phi> (on_stop env s (Some d)) w) = [(ToSocket s, stopped_event)] \<and>
      (\<not> (\<exists>c \<in> set (containers w). named p c) \<longrightarrow>
         containers (final \<phi> (on_stop env s (Some d)) w) = containers w))"
proof -
  let ?T = "trace \<phi> (containerStop env p Done) w"
  let ?r0 = "fst (answer \<phi> (GetContainer p) w)"
  have a: "Uncaught \<notin> set ?T"
    by (cases ?r0) (simp_all add: trace_containerStop_Done teardown_entries_def)
  have b: "\<exists>r0 r1 r2. ?T = teardown_entries p (stop_signal env) r0 r1 r2"
    by (rule teardown_shape)
  have c: "\<forall>r1. Called (Kill p (stop_signal env)) r1 \<in> set ?T \<longrightarrow> Remove p \<in> set (calls_of ?T)"
    by (cases ?r0) (simp_all add: trace_containerStop_Done teardown_entries_def)
  have d: "Called (GetContainer p) Resolved \<in> set ?T \<longrightarrow>
      calls_of ?T = [GetContainer p, Kill p (stop_signal env), Remove p]"
    by (cases ?r0) (simp_all add: trace_containerStop_Done teardown_entries_def)
  have e: "\<not> (\<exists>c \<in> set (containers w). named p c) \<longrightarrow>
      containers (final \<phi> (containerStop env p Done) w) = containers w"
    using teardown_absent by blast
  have f: "(\<forall>n. \<not> \<phi> n) \<longrightarrow>
      containers (final \<phi> (containerStop env p Done) w) = [c \<leftarrow> containers w. \<not> named p c] \<and>
      containers (final \<phi> (containerStop env p (containerStop env p Done)) w) =
        containers (final \<phi> (containerStop env p Done) w)"
  proof
    assume nf: "\<forall>n. \<not> \<phi> n"
    have 1: "containers (final \<phi> (containerStop env p Done) w) = [c \<leftarrow> containers w. \<not> named p c]"
      by (rule teardown_no_faults [OF nf])
    have "containers (final \<phi> (containerStop env p Done) (final \<phi> (containerStop env p Done) w)) =
        [c \<leftarrow> containers (final \<phi> (containerStop env p Done) w). \<not> named p c]"
      by (rule teardown_no_faults [OF nf])
    then have 2: "containers (final \<phi> (containerStop env p (containerStop env p Done)) w) =
        containers (final \<phi> (containerStop env p Done) w)"
      using 1 final_containerStop [of \<phi> env p "containerStop env p Done" w] by simp
    from 1 2 show "containers (final \<phi> (containerStop env p Done) w) = [c \<leftarrow> containers w. \<not> named p c] \<and>
      containers (final \<phi> (containerStop env p (containerStop env p Done)) w) =
        containers (final \<phi> (containerStop env p Done) w)" by blast
  qed
  have g: "projectId d = Some p \<and> p \<noteq> [] \<longrightarrow>
      Uncaught \<notin> set (trace \<phi> (on_stop env s (Some d)) w) \<and>
      events_of (trace \<phi> (on_stop env s (Some d)) w) = [(ToSocket s, stopped_event)] \<and>
      (\<not> (\<exists>c \<in> set (containers w). named p c) \<longrightarrow>
         containers (final \<phi> (on_stop env s (Some d)) w) = containers w)"
  proof
    assume pd: "projectId d = Some p \<and> p \<noteq> []"
    let ?K = "Do (Emit (ToSocket s) ((ev 200)\<lparr>running := Some False\<rparr>)) Done"
    have stop: "on_stop env s (Some d) = containerStop env p ?K"
      using pd by (simp add: on_stop_def truthy_def)
    have tr: "trace \<phi> (on_stop env s (Some d)) w = ?T @ [Emitted (ToSocket s) stopped_event {s}]"
      unfolding stop using trace_containerStop [of \<phi> env p ?K w]
      by (simp add: recipients_def stopped_event_def)
    have fi: "final \<phi> (on_stop env s (Some d)) w = final \<phi> (containerStop env p Done) w"
      unfolding stop using final_containerStop [of \<phi> env p ?K w] by simp
    have 1: "Uncaught \<notin> set (trace \<phi> (on_stop env s (Some d)) w)"
      unfolding tr using a by simp
    have 2: "events_of (trace \<phi> (on_stop env s (Some d)) w) = [(ToSocket s, stopped_event)]"
      unfolding tr
      by (cases ?r0) (simp_all add: events_of_append trace_containerStop_Done teardown_entries_def)
    have 3: "\<not> (\<exists>c \<in> set (containers w). named p c) \<longrightarrow>
         containers (final \<phi> (on_stop env s (Some d)) w) = containers w"
      unfolding fi using e by blast
    from 1 2 3 show "Uncaught \<notin> set (trace \<phi> (on_stop env s (Some d)) w) \<and>
      events_of (trace \<phi> (on_stop env s (Some d)) w) = [(ToSocket s, stopped_event)] \<and>
      (\<not> (\<exists>c \<in> set (containers w). named p c) \<longrightarrow>
         containers (final \<phi> (on_stop env s (Some d)) w) = containers w)" by blast
  qed
  from a b c d e f g show ?thesis by blast
qed


theorem teardown_best_effort_witness:
  "Uncaught \<notin> set (trace no_faults (on_stop example_env 7 (Some example_start)) empty_world) \<and>
   events_of (trace no_faults (on_stop example_env 7 (Some example_start)) empty_world) =
     [(ToSocket 7, stopped_event)] \<and>
   containers (final no_faults (on_stop example_env 7 (Some example_start)) empty_world) =
     containers empty_world \<and>
   calls_of (trace no_faults (containerStop example_env ''abc'' Done) empty_world) =
     [GetContainer ''abc'', Kill ''abc'' (stop_signal example_env), Remove ''abc''] \<and>
   containers (final no_faults
       (containerStop example_env ''abc'' (containerStop example_env ''abc'' Done)) empty_world) =
     containers (final no_faults (containerStop example_env ''abc'' Done) empty_world)"
proof -
  have h1: "projectId example_start = Some ''abc'' \<and> ''abc'' \<noteq> []"
    by (simp add: example_start_def)
  have h2: "\<not> (\<exists>c \<in> set (containers empty_world). named ''abc'' c)"
    by (simp add: empty_world_def)
  have h3: "\<forall>n. \<not> no_faults n"
    by (simp add: no_faults_def)
  have h4: "Called (GetContainer ''abc'') Resolved
      \<in> set (trace no_faults (containerStop example_env ''abc'' Done) empty_world)"
    by (simp add: containerStop_def answer_def no_faults_def empty_world_def)
  note th = teardown_best_effort [of no_faults example_env "''abc''" empty_world example_start 7]
  from th h4 have c: "calls_of (trace no_faults (containerStop example_env ''abc'' Done) empty_world) =
     [GetContainer ''abc'', Kill ''abc'' (stop_signal example_env), Remove ''abc'']"
    by blast
  from th h3 have i: "containers (final no_faults
       (containerStop example_env ''abc'' (containerStop example_env ''abc'' Done)) empty_world) =
     containers (final no_faults (containerStop example_env ''abc'' Done) empty_world)"
    by blast
  from th h1 h2 have s:
    "Uncaught \<notin> set (trace no_faults (on_stop example_env 7 (Some example_start)) empty_world) \<and>
     events_of (trace no_faults (on_stop example_env 7 (Some example_start)) empty_world) =
       [(ToSocket 7, stopped_event)] \<and>
     containers (final no_faults (on_stop example_env 7 (Some example_start)) empty_world) =
       containers empty_world"
    by blast
  from s c i show ?thesis by blast
qed

subsection \<open>Reading a number back from its decimal string\<close>

lemma digit_val_digit_char: "d < 10 \<Longrightarrow> digit_val (digit_char d) = Some d"
  by (simp add: digit_val_def digit_char_def Let_def)

lemma digit_char_not_space: "d < 10 \<Longrightarrow> \<not> is_space (digit_char d)"
  by (simp add: is_space_def digit_char_def)

lemma of_char_digit_char: "d < 10 \<Longrightarrow> (of_char (digit_char d) :: nat) = 48 + d"
  by (simp add: digit_char_def)

lemma digit_char_not_sign:
  assumes "d < 10"
  shows "digit_char d \<noteq> CHR ''-'' \<and> digit_char d \<noteq> CHR ''+'' \<and>
     digit_char d \<noteq> CHR ''x'' \<and> digit_char d \<noteq> CHR ''X''"
proof -
  have "(of_char (digit_char d) :: nat) \<noteq> of_char (CHR ''-'')"
    and "(of_char (digit_char d) :: nat) \<noteq> of_char (CHR ''+'')"
    and "(of_char (digit_char d) :: nat) \<noteq> of_char (CHR ''x'')"
    and "(of_char (digit_char d) :: nat) \<noteq> of_char (CHR ''X'')"
    using assms by (simp_all add: of_char_digit_char)
  then show ?thesis by metis
qed

lemma toString_nat_chars: "\<forall>c \<in> set (toString_nat n). \<exists>d<10. c = digit_char d"
proof (induction n rule: toString_nat.induct)
  case (1 n)
  show ?case
  proof (cases "10 \<le> n")
    case True
    have m: "\<exists>d<10. digit_char (n mod 10) = digit_char d"
      by (rule exI [of _ "n mod 10"]) simp
    from True show ?thesis using 1 m by (subst toString_nat.simps) auto
  next
    case False
    then have m: "\<exists>d<10. digit_char n = digit_char d"
      by (intro exI [of _ n]) simp
    from False show ?thesis using m by (subst toString_nat.simps) auto
  qed
qed

lemma toString_nat_nonempty: "toString_nat n \<noteq> []"
  by (subst toString_nat.simps) simp

lemma digits_prefix_toString_nat:
  "\<exists>ds. ds \<noteq> [] \<and>
     (\<forall>rest. digits_prefix 10 (toString_nat n @ rest) = ds @ digits_prefix 10 rest) \<and>
     (\<forall>a. foldl (\<lambda>a d. a * 10 + d) a ds = a * 10 ^ length ds + n)"
proof (induction n rule: toString_nat.induct)
  case (1 n)
  show ?case
  proof (cases "10 \<le> n")
    case False
    then have s: "toString_nat n = [digit_char n]" by (subst toString_nat.simps) simp
    have "[n] \<noteq> [] \<and>
       (\<forall>rest. digits_prefix 10 (toString_nat n @ rest) = [n] @ digits_prefix 10 rest) \<and>
       (\<forall>a. foldl (\<lambda>a d. a * 10 + d) a [n] = a * 10 ^ length [n] + n)"
      using False by (simp add: s digit_val_digit_char)
    then show ?thesis by blast
  next
    case True
    then have s: "toString_nat n = toString_nat (n div 10) @ [digit_char (n mod 10)]"
      by (subst toString_nat.simps) simp
    from 1 True obtain ds where ds: "ds \<noteq> []"
      "\<And>rest. digits_prefix 10 (toString_nat (n div 10) @ rest) = ds @ digits_prefix 10 rest"
      "\<And>a. foldl (\<lambda>a d. a * 10 + d) a ds = a * 10 ^ length ds + n div 10"
      by blast
    have p: "\<forall>rest. digits_prefix 10 (toString_nat n @ rest) =
        (ds @ [n mod 10]) @ digits_prefix 10 rest"
      by (simp add: s ds(2) digit_val_digit_char)
    have f: "\<forall>a. foldl (\<lambda>a d. a * 10 + d) a (ds @ [n mod 10]) =
        a * 10 ^ length (ds @ [n mod 10]) + n"
    proof
      fix a
      have "foldl (\<lambda>a d. a * 10 + d) a (ds @ [n mod 10]) =
          (a * 10 ^ length ds + n div 10) * 10 + n mod 10"
        by (simp add: ds(3))
      also have "\<dots> = a * 10 ^ length (ds @ [n mod 10]) + (n div 10 * 10 + n mod 10)"
        by (simp add: algebra_simps)
      also have "\<dots> = a * 10 ^ length (ds @ [n mod 10]) + n"
        by simp
      finally show "foldl (\<lambda>a d. a * 10 + d) a (ds @ [n mod 10]) =
          a * 10 ^ length (ds @ [n mod 10]) + n" .
    qed
    have "ds @ [n mod 10] \<noteq> []" by simp
    with p f show ?thesis by blast
  qed
qed

lemma parse_string_toString_nat: "parse_string (toString_nat n) = Num (int n)"
proof -
  obtain c cs where s: "toString_nat n = c # cs"
    using toString_nat_nonempty [of n] by (cases "toString_nat n") auto
  have all: "\<forall>c \<in> set (toString_nat n). \<exists>d<10. c = digit_char d"
    by (rule toString_nat_chars)
  then obtain d where d: "d < 10" "c = digit_char d"
    using s by auto
  have t: "dropWhile is_space (toString_nat n) = toString_nat n"
    using s d digit_char_not_space by simp
  have sign: "take 1 (toString_nat n) \<noteq> ''-'' \<and> take 1 (toString_nat n) \<noteq> ''+''"
    using s d digit_char_not_sign [of d] by simp
  have hex: "take 2 (toString_nat n) \<noteq> ''0x'' \<and> take 2 (toString_nat n) \<noteq> ''0X''"
  proof (cases cs)
    case Nil
    then show ?thesis using s by simp
  next
    case (Cons b bs)
    then have "b \<in> set (toString_nat n)" using s by simp
    then obtain e where "e < 10" "b = digit_char e" using all by blast
    then show ?thesis using s Cons digit_char_not_sign [of e] by simp
  qed
  obtain ds where ds: "ds \<noteq> []"
      "\<And>rest. digits_prefix 10 (toString_nat n @ rest) = ds @ digits_prefix 10 rest"
      "\<And>a. foldl (\<lambda>a d. a * 10 + d) a ds = a * 10 ^ length ds + n"
    using digits_prefix_toString_nat [of n] by blast
  have dp: "digits_prefix 10 (toString_nat n) = ds"
    using ds(2) [of "[]"] by simp
  show ?thesis
    using t sign hex dp ds(1) ds(3) [of 0]
    by (simp add: parse_string_def Let_def from_digits_def)
qed

lemma parseInt_default: "parseInt (or_num None n) = Num (int n)"
  by (simp add: parseInt_def or_num_def parse_string_toString_nat)

lemma parseInt_configured: "parseInt (or_num (Some (toString_nat n)) d) = Num (int n)"
  by (simp add: parseInt_def or_num_def parse_string_toString_nat toString_nat_nonempty)

lemma toString_Num_nat: "toString (Num (int n)) = toString_nat n"
  by (simp add: toString_def)

lemma toString_nat_15: "toString_nat 15 = ''15''"
  by code_simp

subsection \<open>The resource limits of a created sandbox\<close>

lemma answer_create_resolved:
  "fst (answer \<phi> (CreateContainer cfg) w) = Resolved \<Longrightarrow>
     \<exists>c \<in> set (containers (snd (answer \<phi> (CreateContainer cfg) w))). config c = cfg"
  by (auto simp: answer_def split: if_splits)

lemma config_after_map:
  "(\<exists>c \<in> set (map (\<lambda>c. if named p c then c\<lparr>up := b\<rparr> else c) cs). config c = cfg) =
   (\<exists>c \<in> set cs. config c = cfg)"
  by (induction cs) auto

lemma answer_start_keeps_config:
  assumes "\<exists>c \<in> set (containers w). config c = cfg"
  shows "\<exists>c \<in> set (containers (snd (answer \<phi> (Start p) w))). config c = cfg"
proof (cases "\<not> \<phi> (clock w) \<and> (\<exists>c \<in> set (containers w). named p c)")
  case True
  then have "containers (snd (answer \<phi> (Start p) w)) =
      map (\<lambda>c. if named p c then c\<lparr>up := True\<rparr> else c) (containers w)"
    by (simp add: answer_def)
  then show ?thesis using assms by (simp only: config_after_map)
next
  case False
  then have "containers (snd (answer \<phi> (Start p) w)) = containers w"
    by (auto simp: answer_def)
  then show ?thesis using assms by simp
qed

lemma answer_attach_containers [simp]:
  "containers (snd (answer \<phi> (Attach p) w)) = containers w"
  by (simp add: answer_def)

lemma created_in_final:
  assumes "fst (answer \<phi> (CreateContainer (container_options env p lang)) w) = Resolved"
  shows "\<exists>c \<in> set (containers (final \<phi> (execCode env p lang sid) w)).
           config c = container_options env p lang"
proof -
  let ?cfg = "container_options env p lang"
  let ?w1 = "snd (answer \<phi> (CreateContainer ?cfg) w)"
  let ?w2 = "snd (answer \<phi> (Start p) ?w1)"
  have "\<exists>c \<in> set (containers ?w1). config c = ?cfg"
    using assms by (rule answer_create_resolved)
  then have 2: "\<exists>c \<in> set (containers ?w2). config c = ?cfg"
    by (rule answer_start_keeps_config)
  have "containers (final \<phi> (execCode env p lang sid) w) = containers ?w2"
    using assms by (simp add: execCode_def split: outcome.splits)
  then show ?thesis using 2 by simp
qed

lemma create_answer_in_execCode:
  "Called (CreateContainer cfg) r \<in> set (trace \<phi> (execCode env p lang sid) w) \<Longrightarrow>
     cfg = container_options env p lang \<and>
     r = fst (answer \<phi> (CreateContainer (container_options env p lang)) w)"
  by (simp add: execCode_def split: outcome.splits)

text \<open>
  C5. Every creation call a start command makes is for a container named by
  the projectId, with the CPU budget the allocator returned. With no
  configuration in the environment the limits are the defaults: memory
  104857600 bytes, 25 processes, disk 52428800 bytes, and \<open>15m\<close> as the
  timeout argument of the entrypoint. A variable set to the decimal string of a
  number \<open>n\<close> (up to \<open>2 ^ 53\<close>, where JavaScript numbers are exact)
  gives the limit \<open>n\<close>. When the creation is resolved, a container with
  exactly this configuration is in the world the handler ends in.
\<close>

theorem created_sandbox_limits:
  assumes "Called (CreateContainer cfg) r \<in> set (trace \<phi> (on_start env s (Some d)) w)"
  shows "name cfg = the (projectId d) \<and>
         NanoCPUs cfg = getMaxCPUs env \<and>
         (processEnv env ''PAL_MEMORY_QUOTA'' = None \<longrightarrow> Memory cfg = Num 104857600) \<and>
         (processEnv env ''PAL_PID_LIMIT'' = None \<longrightarrow> PidsLimit cfg = Num 25) \<and>
         (processEnv env ''PAL_DISK_QUOTA'' = None \<longrightarrow> DiskQuota cfg = Num 52428800) \<and>
         (processEnv env ''PAL_TIMEOUT'' = None \<longrightarrow> Entrypoint cfg = [''./run.sh'', ''15m'']) \<and>
         (\<forall>n. n \<le> 2 ^ 53 \<and> processEnv env ''PAL_MEMORY_QUOTA'' = Some (toString_nat n) \<longrightarrow>
              Memory cfg = Num (int n)) \<and>
         (\<forall>n. n \<le> 2 ^ 53 \<and> processEnv env ''PAL_PID_LIMIT'' = Some (toString_nat n) \<longrightarrow>
              PidsLimit cfg = Num (int n)) \<and>
         (\<forall>n. n \<le> 2 ^ 53 \<and> processEnv env ''PAL_DISK_QUOTA'' = Some (toString_nat n) \<longrightarrow>
              DiskQuota cfg = Num (int n)) \<and>
         (\<forall>n. n \<le> 2 ^ 53 \<and> processEnv env ''PAL_TIMEOUT'' = Some (toString_nat n) \<longrightarrow>
              Entrypoint cfg = [''./run.sh'', toString_nat n @ ''m'']) \<and>
         (r = Resolved \<longrightarrow>
            (\<exists>c \<in> set (containers (final \<phi> (on_start env s (Some d)) w)). config c = cfg))"
proof (cases "valid_start env d")
  case False
  then show ?thesis using assms by (simp add: on_start_invalid)
next
  case True
  let ?p = "the (projectId d)"
  let ?sid = "the (schoolId d)"
  let ?T = "trace \<phi> (on_start env s (Some d)) w"
  let ?cfg = "container_options env ?p (language d)"
  have ans: "fst (answer \<phi> (CloneCode ?p ?sid) w) = Resolved"
  proof (rule ccontr)
    assume "fst (answer \<phi> (CloneCode ?p ?sid) w) \<noteq> Resolved"
    then have "fst (answer \<phi> (CloneCode ?p ?sid) w) = Rejected"
      by (cases "fst (answer \<phi> (CloneCode ?p ?sid) w)") simp_all
    then show False using assms True by (simp add: on_start_valid)
  qed
  let ?w1 = "snd (answer \<phi> (CloneCode ?p ?sid) w)"
  let ?w2 = "final \<phi> (containerStop env ?p Done) ?w1"
  let ?w3 = "perform \<phi> (Join s ?p) (perform \<phi> (LeaveAll s) ?w2)"
  have dec: "?T = [Emitted (ToSocket s) ack_event {s}, Called (CloneCode ?p ?sid) Resolved] @
     trace \<phi> (containerStop env ?p Done) ?w1 @
     [Performed (LeaveAll s), Performed (Join s ?p)] @
     trace \<phi> (execCode env ?p (language d) ?sid) ?w3"
    by (rule trace_on_start_resolved [OF True ans])
  have fin: "final \<phi> (on_start env s (Some d)) w = final \<phi> (execCode env ?p (language d) ?sid) ?w3"
    by (rule final_on_start_resolved [OF True ans])
  have "Called (CreateContainer cfg) r \<in> set (trace \<phi> (execCode env ?p (language d) ?sid) ?w3)"
    using assms no_create_in_teardown [of cfg r \<phi> env ?p ?w1] unfolding dec by simp
  then have cfg: "cfg = ?cfg" and r: "r = fst (answer \<phi> (CreateContainer ?cfg) ?w3)"
    using create_answer_in_execCode by blast+
  have made: "r = Resolved \<longrightarrow>
      (\<exists>c \<in> set (containers (final \<phi> (on_start env s (Some d)) w)). config c = cfg)"
    unfolding fin cfg using r created_in_final [of \<phi> env ?p "language d" ?w3 ?sid] by simp
  have fields: "name ?cfg = ?p \<and> NanoCPUs ?cfg = getMaxCPUs env" 
    by (simp add: container_options_def)
  have mem: "processEnv env ''PAL_MEMORY_QUOTA'' = None \<longrightarrow> Memory ?cfg = Num 104857600"
    using parseInt_default [of 104857600] by (simp add: container_options_def)
  have pid: "processEnv env ''PAL_PID_LIMIT'' = None \<longrightarrow> PidsLimit ?cfg = Num 25"
    using parseInt_default [of 25] by (simp add: container_options_def)
  have disk: "processEnv env ''PAL_DISK_QUOTA'' = None \<longrightarrow> DiskQuota ?cfg = Num 52428800"
    using parseInt_default [of 52428800] by (simp add: container_options_def)
  have tmo: "processEnv env ''PAL_TIMEOUT'' = None \<longrightarrow> Entrypoint ?cfg = [''./run.sh'', ''15m'']"
    using parseInt_default [of 15] toString_Num_nat [of 15]
    by (simp add: container_options_def toString_nat_15)
  have cmem: "\<forall>n. n \<le> 2 ^ 53 \<and> processEnv env ''PAL_MEMORY_QUOTA'' = Some (toString_nat n) \<longrightarrow>
              Memory ?cfg = Num (int n)"
    by (simp add: container_options_def parseInt_configured)
  have cpid: "\<forall>n. n \<le> 2 ^ 53 \<and> processEnv env ''PAL_PID_LIMIT'' = Some (toString_nat n) \<longrightarrow>
              PidsLimit ?cfg = Num (int n)"
    by (simp add: container_options_def parseInt_configured)
  have cdisk: "\<forall>n. n \<le> 2 ^ 53 \<and> processEnv env ''PAL_DISK_QUOTA'' = Some (toString_nat n) \<longrightarrow>
              DiskQuota ?cfg = Num (int n)"
    by (simp add: container_options_def parseInt_configured)
  have ctmo: "\<forall>n. n \<le> 2 ^ 53 \<and> processEnv env ''PAL_TIMEOUT'' = Some (toString_nat n) \<longrightarrow>
              Entrypoint ?cfg = [''./run.sh'', toString_nat n @ ''m'']"
    by (simp add: container_options_def parseInt_configured toString_Num_nat)
  show ?thesis
    unfolding cfg using fields mem pid disk tmo cmem cpid cdisk ctmo made [unfolded cfg]
    by (intro conjI) (elim conjE, assumption)+
qed


theorem created_sandbox_limits_witness:
  "Called (CreateContainer (container_options example_env ''abc'' (Some ''python''))) Resolved
     \<in> set (trace no_faults (on_start example_env 7 (Some example_start)) empty_world) \<and>
   Memory (container_options example_env ''abc'' (Some ''python'')) = Num 104857600 \<and>
   PidsLimit (container_options example_env ''abc'' (Some ''python'')) = Num 25 \<and>
   DiskQuota (container_options example_env ''abc'' (Some ''python'')) = Num 52428800 \<and>
   Entrypoint (container_options example_env ''abc'' (Some ''python'')) = [''./run.sh'', ''15m''] \<and>
   NanoCPUs (container_options example_env ''abc'' (Some ''python'')) = Num 500000000 \<and>
   (\<exists>c \<in> set (containers (final no_faults (on_start example_env 7 (Some example_start)) empty_world)).
      config c = container_options example_env ''abc'' (Some ''python'')) \<and>
   Called (CreateContainer (container_options tuned_env ''abc'' (Some ''python''))) Resolved
     \<in> set (trace no_faults (on_start tuned_env 7 (Some example_start)) empty_world) \<and>
   PidsLimit (container_options tuned_env ''abc'' (Some ''python'')) = Num 40 \<and>
   Entrypoint (container_options tuned_env ''abc'' (Some ''python'')) = [''./run.sh'', ''5m'']"
proof -
  let ?cfg = "container_options example_env ''abc'' (Some ''python'')"
  let ?cfg' = "container_options tuned_env ''abc'' (Some ''python'')"
  have h: "Called (CreateContainer ?cfg) Resolved
     \<in> set (trace no_faults (on_start example_env 7 (Some example_start)) empty_world)"
    by (simp add: on_start_def example_start_def truthy_def empty_world_def containerStop_def
          execCode_def answer_def no_faults_def named_def)
       (simp add: example_env_def)
  have h': "Called (CreateContainer ?cfg') Resolved
     \<in> set (trace no_faults (on_start tuned_env 7 (Some example_start)) empty_world)"
    by (simp add: on_start_def example_start_def truthy_def empty_world_def containerStop_def
          execCode_def answer_def no_faults_def named_def)
       (simp add: example_env_def tuned_env_def)
  have e: "processEnv example_env ''PAL_MEMORY_QUOTA'' = None"
    "processEnv example_env ''PAL_PID_LIMIT'' = None"
    "processEnv example_env ''PAL_DISK_QUOTA'' = None"
    "processEnv example_env ''PAL_TIMEOUT'' = None"
    "getMaxCPUs example_env = Num 500000000"
    by (simp_all add: example_env_def)
  have s40: "toString_nat 40 = ''40''" and s5: "toString_nat 5 = ''5''"
    by code_simp+
  have e': "(40::nat) \<le> 2 ^ 53 \<and> processEnv tuned_env ''PAL_PID_LIMIT'' = Some (toString_nat 40)"
    "(5::nat) \<le> 2 ^ 53 \<and> processEnv tuned_env ''PAL_TIMEOUT'' = Some (toString_nat 5)"
    by (simp_all add: tuned_env_def s40 s5)
  note th = created_sandbox_limits [OF h]
  note th' = created_sandbox_limits [OF h']
  from th e(1) have a1: "Memory ?cfg = Num 104857600" by blast
  from th e(2) have a2: "PidsLimit ?cfg = Num 25" by blast
  from th e(3) have a3: "DiskQuota ?cfg = Num 52428800" by blast
  from th e(4) have a4: "Entrypoint ?cfg = [''./run.sh'', ''15m'']" by blast
  from th have "NanoCPUs ?cfg = getMaxCPUs example_env" by blast
  then have a5: "NanoCPUs ?cfg = Num 500000000" by (simp only: e(5))
  note a = a1 a2 a3 a4 a5
  from th have b: "\<exists>c \<in> set (containers (final no_faults
      (on_start example_env 7 (Some example_start)) empty_world)). config c = ?cfg"
    by blast
  from th' e'(1) have c: "PidsLimit ?cfg' = Num (int 40)"
    by blast
  from th' e'(2) have d: "Entrypoint ?cfg' = [''./run.sh'', toString_nat 5 @ ''m'']"
    by blast
  from h a b h' c d show ?thesis by (simp add: s5)
qed

subsection \<open>One sandbox per project\<close>

lemma named_up_update [simp]: "named p (c\<lparr>up := b\<rparr>) = named p c"
  by (simp add: named_def)

lemma named_comp_update:
  "named p \<circ> (\<lambda>c. if named q c then c\<lparr>up := b\<rparr> else c) = named p"
  by (auto simp: fun_eq_iff)

lemma length_filter_filter: "length [c \<leftarrow> [c \<leftarrow> cs. Q c]. P c] \<le> length [c \<leftarrow> cs. P c]"
  by (induction cs) auto

lemma filter_named_none:
  "\<not> (\<exists>c \<in> set cs. named p c) \<Longrightarrow> [c \<leftarrow> cs. named p c] = []"
  by (induction cs) auto

lemma docker_at_most_one:
  assumes "length [c \<leftarrow> cs. named p c] \<le> 1"
  shows "length [c \<leftarrow> snd (docker f c cs). named p c] \<le> 1"
proof (cases c)
  case (Kill q sig)
  then show ?thesis using assms by (simp add: filter_map named_comp_update)
next
  case (Remove q)
  have "length [c \<leftarrow> [c \<leftarrow> cs. \<not> named q c]. named p c] \<le> length [c \<leftarrow> cs. named p c]"
    by (rule length_filter_filter)
  then show ?thesis using Remove assms by simp
next
  case (CreateContainer cfg)
  show ?thesis
  proof (cases "\<not> f \<and> \<not> (\<exists>c \<in> set cs. named (name cfg) c)")
    case False
    then show ?thesis using CreateContainer assms by auto
  next
    case True
    then have new: "snd (docker f c cs) = cs @ [\<lparr>config = cfg, up = False\<rparr>]"
      using CreateContainer by simp
    show ?thesis
    proof (cases "name cfg = p")
      case same: True
      then have "[c \<leftarrow> cs. named p c] = []"
        using True filter_named_none [where cs = cs and p = p] by simp
      then show ?thesis unfolding new by simp
    next
      case other: False
      then show ?thesis unfolding new using assms by (simp add: named_def)
    qed
  qed
next
  case (Start q)
  then show ?thesis using assms by (simp add: filter_map named_comp_update)
qed (use assms in simp_all)

lemma answer_at_most_one:
  "length [c \<leftarrow> containers w. named p c] \<le> 1 \<Longrightarrow>
   length [c \<leftarrow> containers (snd (answer \<phi> c w)). named p c] \<le> 1"
  using docker_at_most_one [where cs = "containers w" and p = p and f = "\<phi> (clock w)" and c = c]
  by (simp add: answer_def)

lemma perform_at_most_one:
  "length [c \<leftarrow> containers w. named p c] \<le> 1 \<Longrightarrow>
   length [c \<leftarrow> containers (perform \<phi> st w). named p c] \<le> 1"
  by (cases st) (simp_all add: answer_at_most_one del: One_nat_def)

lemma exec_at_most_one:
  "length [c \<leftarrow> containers w. named p c] \<le> 1 \<Longrightarrow>
   \<forall>w' \<in> set (exec \<phi> q w). length [c \<leftarrow> containers w'. named p c] \<le> 1"
proof (induction q arbitrary: w)
  case (Do st q)
  have "length [c \<leftarrow> containers (perform \<phi> st w). named p c] \<le> 1"
    using Do.prems by (rule perform_at_most_one)
  then have "\<forall>w' \<in> set (exec \<phi> q (perform \<phi> st w)).
      length [c \<leftarrow> containers w'. named p c] \<le> 1"
    by (rule Do.IH)
  then show ?case using Do.prems by simp
next
  case (Try c k)
  have "length [c \<leftarrow> containers (snd (answer \<phi> c w)). named p c] \<le> 1"
    using Try.prems by (rule answer_at_most_one)
  then have "\<forall>w' \<in> set (exec \<phi> (k (fst (answer \<phi> c w))) (snd (answer \<phi> c w))).
      length [c \<leftarrow> containers w'. named p c] \<le> 1"
    by (rule Try.IH [OF rangeI])
  then show ?case using Try.prems by simp
next
  case (Call c k)
  have "length [c \<leftarrow> containers (snd (answer \<phi> c w)). named p c] \<le> 1"
    using Call.prems by (rule answer_at_most_one)
  then have "\<forall>w' \<in> set (exec \<phi> (k (fst (answer \<phi> c w))) (snd (answer \<phi> c w))).
      length [c \<leftarrow> containers w'. named p c] \<le> 1"
    by (rule Call.IH [OF rangeI])
  then show ?case using Call.prems by simp
qed simp_all

lemma final_in_exec: "final \<phi> q w \<in> set (exec \<phi> q w)"
  by (induction q arbitrary: w) simp_all

text \<open>
  C1. Two start commands for the same projectId, handled one after the other,
  from a world with at most one container of that name. In every world either
  handler passes through there is at most one container of that name (the
  daemon refuses a name in use, and nothing else adds a container). And
  whenever the second handler gets as far as calling the creation, everything
  before that call is: the acknowledgement, the resolved fetch, one whole
  teardown for the projectId (the lookup and, when it returned, the answered
  kill and then the answered removal), \<open>leaveAll\<close>, \<open>join\<close> and the event
  \<open>Starting...\<close>. The creation begins only after the teardown has run to
  its end.
\<close>

theorem one_sandbox_per_project:
  assumes "projectId d1 = Some p" and "projectId d2 = Some p"
    and "length [c \<leftarrow> containers w. named p c] \<le> 1"
  shows "(\<forall>w' \<in> set (exec \<phi> (on_start env s1 (Some d1)) w @
                     exec \<phi> (on_start env s2 (Some d2)) (final \<phi> (on_start env s1 (Some d1)) w)).
            length [c \<leftarrow> containers w'. named p c] \<le> 1) \<and>
         (\<forall>cfg r. Called (CreateContainer cfg) r
               \<in> set (trace \<phi> (on_start env s2 (Some d2)) (final \<phi> (on_start env s1 (Some d1)) w)) \<longrightarrow>
            name cfg = p \<and>
            (\<exists>r0 r1 r2 R.
               takeWhile (\<lambda>e. \<not> is_creation e)
                 (trace \<phi> (on_start env s2 (Some d2)) (final \<phi> (on_start env s1 (Some d1)) w)) =
               [Emitted (ToSocket s2) ack_event {s2},
                Called (CloneCode p (the (schoolId d2))) Resolved] @
               teardown_entries p (stop_signal env) r0 r1 r2 @
               [Performed (LeaveAll s2), Performed (Join s2 p),
                Emitted (ToRoom p) starting_event R]))"
proof -
  let ?w1 = "final \<phi> (on_start env s1 (Some d1)) w"
  let ?T = "trace \<phi> (on_start env s2 (Some d2)) ?w1"
  have i1: "\<forall>w' \<in> set (exec \<phi> (on_start env s1 (Some d1)) w).
      length [c \<leftarrow> containers w'. named p c] \<le> 1"
    by (rule exec_at_most_one [OF assms(3)])
  then have "length [c \<leftarrow> containers ?w1. named p c] \<le> 1"
    using final_in_exec by blast
  then have i2: "\<forall>w' \<in> set (exec \<phi> (on_start env s2 (Some d2)) ?w1).
      length [c \<leftarrow> containers w'. named p c] \<le> 1"
    by (rule exec_at_most_one)
  have inv: "\<forall>w' \<in> set (exec \<phi> (on_start env s1 (Some d1)) w @
                     exec \<phi> (on_start env s2 (Some d2)) ?w1).
            length [c \<leftarrow> containers w'. named p c] \<le> 1"
    using i1 i2 by auto
  have ord: "\<forall>cfg r. Called (CreateContainer cfg) r \<in> set ?T \<longrightarrow>
            name cfg = p \<and>
            (\<exists>r0 r1 r2 R.
               takeWhile (\<lambda>e. \<not> is_creation e) ?T =
               [Emitted (ToSocket s2) ack_event {s2},
                Called (CloneCode p (the (schoolId d2))) Resolved] @
               teardown_entries p (stop_signal env) r0 r1 r2 @
               [Performed (LeaveAll s2), Performed (Join s2 p),
                Emitted (ToRoom p) starting_event R])"
  proof (intro allI impI)
    fix cfg r
    assume c: "Called (CreateContainer cfg) r \<in> set ?T"
    have v: "valid_start env d2"
    proof (rule ccontr)
      assume "\<not> valid_start env d2"
      then show False using c by (simp add: on_start_invalid)
    qed
    have p: "the (projectId d2) = p" using assms(2) by simp
    obtain rc r0 r1 r2 r3 r4 where T: "?T =
       start_entries s2 p (the (schoolId d2)) (stop_signal env)
         (container_options env p (language d2))
         (insert s2 (recipients ?w1 (ToRoom p))) rc r0 r1 r2 r3 r4"
      using start_shape [OF v, of \<phi> s2 ?w1] unfolding p by blast
    have n: "name cfg = p"
      using c unfolding T
      by (cases rc; cases r0; cases r3; cases r4)
         (auto simp: start_entries_def teardown_entries_def provision_entries_def)
    have "takeWhile (\<lambda>e. \<not> is_creation e) ?T =
               [Emitted (ToSocket s2) ack_event {s2},
                Called (CloneCode p (the (schoolId d2))) Resolved] @
               teardown_entries p (stop_signal env) r0 r1 r2 @
               [Performed (LeaveAll s2), Performed (Join s2 p),
                Emitted (ToRoom p) starting_event (insert s2 (recipients ?w1 (ToRoom p)))]"
      using c unfolding T
      by (cases rc; cases r0; cases r3; cases r4)
         (simp_all add: start_entries_def teardown_entries_def provision_entries_def
            is_creation_def is_create_def)
    with n show "name cfg = p \<and>
            (\<exists>r0 r1 r2 R.
               takeWhile (\<lambda>e. \<not> is_creation e) ?T =
               [Emitted (ToSocket s2) ack_event {s2},
                Called (CloneCode p (the (schoolId d2))) Resolved] @
               teardown_entries p (stop_signal env) r0 r1 r2 @
               [Performed (LeaveAll s2), Performed (Join s2 p),
                Emitted (ToRoom p) starting_event R])"
      by blast
  qed
  from inv ord show ?thesis by (rule conjI)
qed


theorem one_sandbox_per_project_witness:
  "projectId example_start = Some ''abc'' \<and>
   length [c \<leftarrow> containers busy_world. named ''abc'' c] \<le> 1 \<and>
   length [c \<leftarrow> containers (final no_faults (on_start example_env 8 (Some example_start))
             (final no_faults (on_start example_env 7 (Some example_start)) busy_world)).
           named ''abc'' c] \<le> 1 \<and>
   Called (CreateContainer (container_options example_env ''abc'' (Some ''python''))) Resolved
     \<in> set (trace no_faults (on_start example_env 8 (Some example_start))
              (final no_faults (on_start example_env 7 (Some example_start)) busy_world)) \<and>
   (\<exists>r0 r1 r2 R.
      takeWhile (\<lambda>e. \<not> is_creation e)
        (trace no_faults (on_start example_env 8 (Some example_start))
          (final no_faults (on_start example_env 7 (Some example_start)) busy_world)) =
      [Emitted (ToSocket 8) ack_event {8},
       Called (CloneCode ''abc'' (the (schoolId example_start))) Resolved] @
      teardown_entries ''abc'' (stop_signal example_env) r0 r1 r2 @
      [Performed (LeaveAll 8), Performed (Join 8 ''abc''),
       Emitted (ToRoom ''abc'') starting_event R])"
proof -
  let ?w1 = "final no_faults (on_start example_env 7 (Some example_start)) busy_world"
  let ?p2 = "on_start example_env 8 (Some example_start)"
  have h1: "projectId example_start = Some ''abc''"
    by (simp add: example_start_def)
  have h2: "length [c \<leftarrow> containers busy_world. named ''abc'' c] \<le> 1"
    by (simp add: busy_world_def named_def)
  have h3: "Called (CreateContainer (container_options example_env ''abc'' (Some ''python''))) Resolved
     \<in> set (trace no_faults ?p2 ?w1)"
    by (simp add: on_start_def example_start_def truthy_def busy_world_def containerStop_def
          execCode_def answer_def no_faults_def named_def)
       (simp add: example_env_def)
  note th = one_sandbox_per_project [OF h1 h1 h2, of no_faults example_env 7 8]
  have "?w1 \<in> set (exec no_faults (on_start example_env 7 (Some example_start)) busy_world)"
    by (rule final_in_exec)
  have m: "final no_faults ?p2 ?w1
      \<in> set (exec no_faults (on_start example_env 7 (Some example_start)) busy_world @
             exec no_faults ?p2 ?w1)"
    using final_in_exec [of no_faults ?p2 ?w1] by simp
  from th m have a: "length [c \<leftarrow> containers (final no_faults ?p2 ?w1). named ''abc'' c] \<le> 1"
    by blast
  from th h3 have b: "\<exists>r0 r1 r2 R.
      takeWhile (\<lambda>e. \<not> is_creation e) (trace no_faults ?p2 ?w1) =
      [Emitted (ToSocket 8) ack_event {8},
       Called (CloneCode ''abc'' (the (schoolId example_start))) Resolved] @
      teardown_entries ''abc'' (stop_signal example_env) r0 r1 r2 @
      [Performed (LeaveAll 8), Performed (Join 8 ''abc''),
       Emitted (ToRoom ''abc'') starting_event R]"
    by blast
  from h1 h2 a h3 b show ?thesis by (intro conjI)
qed

end
